theory Spec2Isabelle
  imports Main
begin

section \<open>JavaScript strings and values\<close>

text \<open>
  A JavaScript string is a sequence of UTF-16 code units. The model uses \<^typ>\<open>string\<close>,
  one \<^typ>\<open>char\<close> per code unit, and so covers the strings whose code units are below 256.
  In that range the characters matched by the regular-expression class \<^verbatim>\<open>\s\<close>, which are
  also the characters removed by \<^verbatim>\<open>String.prototype.trim\<close>, are tab, line feed, vertical
  tab, form feed, carriage return, space and no-break space.
\<close>

definition is_space :: "char \<Rightarrow> bool" where
  "is_space c = (c = CHR 0x09 \<or> c = CHR 0x0A \<or> c = CHR 0x0B \<or> c = CHR 0x0C
                 \<or> c = CHR 0x0D \<or> c = CHR 0x20 \<or> c = CHR 0xA0)"

text \<open>\<^verbatim>\<open>Array.prototype.join\<close> on an array of strings.\<close>

fun join :: "string \<Rightarrow> string list \<Rightarrow> string" where
  "join sep [] = []"
| "join sep [x] = x"
| "join sep (x # y # ys) = x @ sep @ join sep (y # ys)"

text \<open>\<^verbatim>\<open>String.prototype.trim\<close>.\<close>

definition trim :: "string \<Rightarrow> string" where
  "trim s = rev (dropWhile is_space (rev (dropWhile is_space s)))"

section \<open>QueryBuilder (query-builder.js, index.js)\<close>

text \<open>
  The object has the single field \<^verbatim>\<open>q\<close>, the array of fragments. The argument of
  \<^verbatim>\<open>add\<close> is a string or an array of such arguments; fragments are strings.
\<close>

record queryBuilder =
  q :: "string list"

datatype partial = Frag string | Arr "partial list"

definition QueryBuilder :: queryBuilder where
  "QueryBuilder = \<lparr>q = []\<rparr>"

text \<open>
  \<^verbatim>\<open>add(partial)\<close>: an array is traversed with \<^verbatim>\<open>forEach\<close>, calling \<^verbatim>\<open>add\<close> on each
  element; anything else is pushed on \<^verbatim>\<open>q\<close>.
\<close>

fun add :: "queryBuilder \<Rightarrow> partial \<Rightarrow> queryBuilder" where
  "add qb (Arr ps) = fold (\<lambda>element qb'. add qb' element) ps qb"
| "add qb (Frag s) = qb\<lparr>q := q qb @ [s]\<rparr>"

text \<open>
  \<^verbatim>\<open>replace(/\s\s+/g, ' ')\<close>: scanning from the left, a match starts at a whitespace
  character that is followed by another one and extends, greedily, over all the whitespace
  characters that follow; it is replaced by one space and the scan goes on behind it. A
  character at which no match starts is copied.
\<close>

function collapse_ws :: "string \<Rightarrow> string" where
  "collapse_ws [] = []"
| "collapse_ws [c] = [c]"
| "collapse_ws (c # d # cs) =
     (if is_space c \<and> is_space d then CHR 0x20 # collapse_ws (dropWhile is_space cs)
      else c # collapse_ws (d # cs))"
  by pat_completeness auto
termination
proof (relation "measure length")
  show "wf (measure length)" by simp
next
  fix c d :: char and cs :: string
  have "length (dropWhile is_space cs) \<le> length cs"
    by (rule length_dropWhile_le)
  then show "(dropWhile is_space cs, c # d # cs) \<in> measure length" by simp
next
  fix c d :: char and cs :: string
  show "(d # cs, c # d # cs) \<in> measure length" by simp
qed

text \<open>
  \<^verbatim>\<open>replace(/(?:\r\n|\r|\n|\t)/g, '')\<close>: the alternatives are tried in their order at each
  position, and every match is removed.
\<close>

fun strip_breaks :: "string \<Rightarrow> string" where
  "strip_breaks [] = []"
| "strip_breaks [c] = (if c = CHR 0x0D \<or> c = CHR 0x0A \<or> c = CHR 0x09 then [] else [c])"
| "strip_breaks (c # d # cs) =
     (if c = CHR 0x0D \<and> d = CHR 0x0A then strip_breaks cs
      else if c = CHR 0x0D \<or> c = CHR 0x0A \<or> c = CHR 0x09 then strip_breaks (d # cs)
      else c # strip_breaks (d # cs))"

text \<open>\<^verbatim>\<open>toString()\<close>: join, the two replacements, trim.\<close>

definition toString :: "queryBuilder \<Rightarrow> string" where
  "toString qb = trim (strip_breaks (collapse_ws (join '' '' (q qb))))"

subsection \<open>QueryBuilder objects in a store\<close>







text \<open>The leaves of a nested argument of \<^verbatim>\<open>add\<close>, from left to right.\<close>

fun leaves :: "partial \<Rightarrow> string list" where
  "leaves (Frag s) = [s]"
| "leaves (Arr ps) = concat (map leaves ps)"

text \<open>A string in which no two whitespace characters are adjacent.\<close>

fun no_adjacent_ws :: "string \<Rightarrow> bool" where
  "no_adjacent_ws (c # d # cs) = ((is_space c \<longrightarrow> \<not> is_space d) \<and> no_adjacent_ws (d # cs))"
| "no_adjacent_ws cs = True"

text \<open>
  The rendering in the words of the specification, for comparison with \<^verbatim>\<open>toString\<close>:
  the fragments joined by one space, any run of whitespace characters, of whatever length,
  replaced by one space, line feeds, carriage returns and tabs removed, the ends trimmed.
\<close>

function collapse_any_run :: "string \<Rightarrow> string" where
  "collapse_any_run [] = []"
| "collapse_any_run (c # cs) =
     (if is_space c then CHR 0x20 # collapse_any_run (dropWhile is_space cs)
      else c # collapse_any_run cs)"
  by pat_completeness auto
termination
proof (relation "measure length")
  show "wf (measure length)" by simp
next
  fix c :: char and cs :: string
  have "length (dropWhile is_space cs) \<le> length cs"
    by (rule length_dropWhile_le)
  then show "(dropWhile is_space cs, c # cs) \<in> measure length" by simp
next
  fix c :: char and cs :: string
  show "(cs, c # cs) \<in> measure length" by simp
qed

definition render_as_specified :: "string list \<Rightarrow> string" where
  "render_as_specified fragments =
     trim (filter (\<lambda>c. c \<noteq> CHR 0x0A \<and> c \<noteq> CHR 0x0D \<and> c \<noteq> CHR 0x09)
             (collapse_any_run (join '' '' fragments)))"

section \<open>JavaScript values\<close>

text \<open>
  The values that occur as query parameters, as results and as properties. An object is
  the list of its own enumerable properties in the order of \<^verbatim>\<open>Object.keys\<close>.

  A number of JavaScript is a double. This code does no arithmetic: all it does with a
  number is print it, in a template literal. The digits that the runtime prints for a
  double (the shortest that read back as the same double, in exponent form from
  \<open>10\<^sup>2\<^sup>1\<close> on, \<^verbatim>\<open>NaN\<close>, \<^verbatim>\<open>Infinity\<close>) are the runtime's matter and are not
  computed here: a number is given by the text that the runtime prints for it, as in
  \<^verbatim>\<open>42\<close>, \<^verbatim>\<open>-1.5\<close>, \<^verbatim>\<open>1e+21\<close>, \<^verbatim>\<open>590295810358705700000\<close>, \<^verbatim>\<open>NaN\<close>.
\<close>

datatype number = Prints string

datatype jsval =
    JUndefined
  | JNull
  | JBool bool
  | JNum number
  | JStr string
  | JArr "jsval list"
  | JObj "(string \<times> jsval) list"

text \<open>The \<^verbatim>\<open>typeof\<close> operator on these values.\<close>

fun typeof :: "jsval \<Rightarrow> string" where
  "typeof JUndefined = ''undefined''"
| "typeof JNull = ''object''"
| "typeof (JBool b) = ''boolean''"
| "typeof (JNum n) = ''number''"
| "typeof (JStr s) = ''string''"
| "typeof (JArr vs) = ''object''"
| "typeof (JObj kvs) = ''object''"

fun Number_toString :: "number \<Rightarrow> string" where
  "Number_toString (Prints digits) = digits"

text \<open>
  The conversion to a string that a template literal and \<^verbatim>\<open>new Error(...)\<close> apply.
  An array prints its elements separated by commas, with nothing for \<^verbatim>\<open>null\<close> and
  \<^verbatim>\<open>undefined\<close>.
\<close>

fun ToString :: "jsval \<Rightarrow> string" where
  "ToString JUndefined = ''undefined''"
| "ToString JNull = ''null''"
| "ToString (JBool b) = (if b then ''true'' else ''false'')"
| "ToString (JNum n) = Number_toString n"
| "ToString (JStr s) = s"
| "ToString (JArr vs) =
     join '','' (map (\<lambda>v. case v of JUndefined \<Rightarrow> [] | JNull \<Rightarrow> [] | _ \<Rightarrow> ToString v) vs)"
| "ToString (JObj kvs) = ''[object Object]''"

definition Object_keys :: "(string \<times> jsval) list \<Rightarrow> string list" where
  "Object_keys obj = map fst obj"

text \<open>Property access \<^verbatim>\<open>obj[k]\<close>.\<close>

definition get_prop :: "(string \<times> jsval) list \<Rightarrow> string \<Rightarrow> jsval" where
  "get_prop obj k = (case map_of obj k of None \<Rightarrow> JUndefined | Some v \<Rightarrow> v)"

text \<open>
  What a \<^verbatim>\<open>throw\<close> carries in this code: an \<^verbatim>\<open>Error\<close> object, given by its name and
  its message, or a string. \<^verbatim>\<open>new Error(err)\<close> converts its argument to a string for
  the message; for an error object that is \<^verbatim>\<open>Error.prototype.toString\<close>.
\<close>

datatype js_thrown = ErrorObj string string | StringVal string

fun String_of :: "js_thrown \<Rightarrow> string" where
  "String_of (ErrorObj name msg) =
     (if name = [] then msg else if msg = [] then name else name @ '': '' @ msg)"
| "String_of (StringVal s) = s"

definition new_Error :: "string \<Rightarrow> js_thrown" where
  "new_Error msg = ErrorObj ''Error'' msg"

section \<open>Neo4j.toProps (index.js)\<close>

text \<open>
  The \<^verbatim>\<open>forEach\<close> over the keys with the array \<^verbatim>\<open>ret\<close> it pushes to; a \<^verbatim>\<open>throw\<close>
  in the callback ends the loop and the method.
\<close>

fun toProps_forEach ::
  "(string \<times> jsval) list \<Rightarrow> string list \<Rightarrow> string list \<Rightarrow> js_thrown + string list" where
  "toProps_forEach obj [] ret = Inr ret"
| "toProps_forEach obj (k # ks) ret =
     (if typeof (get_prop obj k) = ''string'' then
        toProps_forEach obj ks (ret @ [k @ '':'' @ [CHR 0x22] @ ToString (get_prop obj k) @ [CHR 0x22]])
      else if typeof (get_prop obj k) = ''number'' then
        toProps_forEach obj ks (ret @ [k @ '':'' @ ToString (get_prop obj k)])
      else if typeof (get_prop obj k) = ''boolean'' then
        toProps_forEach obj ks (ret @ [k @ '':'' @ ToString (get_prop obj k)])
      else if typeof (get_prop obj k) = ''array'' then
        toProps_forEach obj ks (ret @ [k @ '':[]''])
      else Inl (new_Error ''property type not supported''))"

definition toProps :: "(string \<times> jsval) list \<Rightarrow> js_thrown + string" where
  "toProps obj =
     (case toProps_forEach obj (Object_keys obj) [] of
        Inl err \<Rightarrow> Inl err
      | Inr ret \<Rightarrow> Inr (join '', '' ret))"

text \<open>The value types that \<^verbatim>\<open>toProps\<close> renders, and the text of one property.\<close>

fun renderable :: "jsval \<Rightarrow> bool" where
  "renderable (JStr s) = True"
| "renderable (JNum n) = True"
| "renderable (JBool b) = True"
| "renderable v = False"

fun key_value :: "string \<Rightarrow> jsval \<Rightarrow> string" where
  "key_value k (JStr s) = k @ '':'' @ [CHR 0x22] @ s @ [CHR 0x22]"
| "key_value k (JNum n) = k @ '':'' @ Number_toString n"
| "key_value k (JBool b) = k @ '':'' @ (if b then ''true'' else ''false'')"
| "key_value k v = []"

section \<open>Transaction\<close>

subsection \<open>The object, requests and replies\<close>

text \<open>
  The fields that both versions of the class have, then the version of index.js, built
  from a URL, and the version built from host and port, which sends its requests through
  \<^verbatim>\<open>ServerRequest\<close>. An entry of \<^verbatim>\<open>statements\<close> is the object
  \<^verbatim>\<open>{statement: ..., parameters: ...}\<close>.

  A further version of the class, which passes a URL to \<^verbatim>\<open>ServerRequest\<close>, compares
  the status with \<^verbatim>\<open>HTTP_OK\<close> and \<^verbatim>\<open>HTTP_CREATED\<close>, names that its file does not
  define; it is not part of this model.
\<close>

record transaction_fields =
  used :: bool
  auth :: string
  statements :: "jsval list"

record transaction = transaction_fields +
  transactionUrl :: string

record transaction_sr = transaction_fields +
  host :: string
  port :: nat

definition Transaction :: "string \<Rightarrow> string \<Rightarrow> transaction" where
  "Transaction url a = \<lparr>used = False, auth = a, statements = [], transactionUrl = url\<rparr>"

definition Transaction_sr :: "string \<Rightarrow> nat \<Rightarrow> string \<Rightarrow> transaction_sr" where
  "Transaction_sr h p a = \<lparr>used = False, auth = a, statements = [], host = h, port = p\<rparr>"

text \<open>
  A request as handed to the transport: where it goes (the URL given to \<^verbatim>\<open>fetch\<close>, or
  the host, port and path of the options given to \<^verbatim>\<open>ServerRequest.send\<close>), the headers,
  the method and the body. The body is absent, a string, or the text that
  \<^verbatim>\<open>JSON.stringify\<close> makes of a value; the serialisation itself belongs to the runtime and
  is not modelled. The values of type \<^typ>\<open>jsval\<close> are finite trees, on which
  \<^verbatim>\<open>JSON.stringify\<close> does not throw: the two records above hold the transactions all of
  whose parameters have a JSON text. Parameters that have none, and a call of the
  transport that throws, are the subject of the last subsection of this section.
\<close>

datatype endpoint = Url string | HostPortPath string nat string

datatype request_body = NoBody | Text string | JSON_stringify jsval

record request =
  endpoint :: endpoint
  headers :: "(string \<times> string) list"
  "method" :: string
  body :: request_body

text \<open>
  What a method does besides returning: the requests it hands to the transport and the
  assignment \<^verbatim>\<open>this.used = true\<close>, in the order in which they happen.
\<close>

datatype effect = Send request | SetUsed

fun sent :: "effect list \<Rightarrow> request list" where
  "sent [] = []"
| "sent (Send r # es) = r # sent es"
| "sent (SetUsed # es) = sent es"

text \<open>
  The reply of the transport to one request: the promise is rejected (a network failure),
  or fulfilled with a response. A response has its status code, its status text and its
  body, which is read as JSON: reading it fails, or gives the object of the transactional
  endpoint with the fields \<^verbatim>\<open>results\<close>, \<^verbatim>\<open>errors\<close> and \<^verbatim>\<open>commit\<close>.
\<close>

record neo4j_error =
  code :: string
  message :: string

record neo4j_json =
  results :: jsval
  errors :: "neo4j_error list"
  commit :: string

datatype parsed = Malformed js_thrown | Json neo4j_json

record response =
  status :: nat
  statusText :: string
  json :: parsed

datatype reply = NetworkFailure js_thrown | Response response

text \<open>How the promise returned by \<^verbatim>\<open>execute\<close> is settled.\<close>

datatype settled = Resolved jsval | Rejected js_thrown

definition HTTP_OK :: nat where
  "HTTP_OK = 200"

definition HTTP_CREATED :: nat where
  "HTTP_CREATED = 201"

text \<open>
  Modelled from the spec: the constants \<^verbatim>\<open>ServerRequest.HTTP_OK\<close> and
  \<^verbatim>\<open>ServerRequest.HTTP_CREATED\<close> of the module server-request, which the version built
  from host and port reads; the status "OK" is 200 and the status "Created" is 201.
\<close>

definition ServerRequest_HTTP_OK :: nat where
  "ServerRequest_HTTP_OK = 200"

definition ServerRequest_HTTP_CREATED :: nat where
  "ServerRequest_HTTP_CREATED = 201"

definition TransactionPath :: string where
  "TransactionPath = ''/db/data/transaction''"

subsection \<open>addQuery\<close>

text \<open>
  A method call gives the effects it had, the object after the call, and what it returned
  or threw. \<^verbatim>\<open>addQuery\<close> is the same in both versions of the class.
\<close>

definition addQuery ::
  "'z transaction_fields_scheme \<Rightarrow> queryBuilder \<Rightarrow> jsval
     \<Rightarrow> effect list \<times> 'z transaction_fields_scheme \<times> (js_thrown + unit)" where
  "addQuery tx qb params =
     (if used tx then ([], tx, Inl (new_Error ''Can't reuse transaction''))
      else ([], tx\<lparr>statements := statements tx
                    @ [JObj [(''statement'', JStr (toString qb)), (''parameters'', params)]]\<rparr>,
            Inr ()))"

text \<open>A sequence of \<^verbatim>\<open>addQuery\<close> calls on one object; a call that throws ends it.\<close>

fun addQueries ::
  "'z transaction_fields_scheme \<Rightarrow> (queryBuilder \<times> jsval) list
     \<Rightarrow> js_thrown + 'z transaction_fields_scheme" where
  "addQueries tx [] = Inr tx"
| "addQueries tx ((qb, params) # calls) =
     (case addQuery tx qb params of
        (es, tx', Inl err) \<Rightarrow> Inl err
      | (es, tx', Inr u) \<Rightarrow> addQueries tx' calls)"

subsection \<open>execute, index.js\<close>

definition request_headers :: "string \<Rightarrow> (string \<times> string) list" where
  "request_headers a =
     [(''content-type'', ''application/json''),
      (''Accept'', ''application/json; charset=UTF-8''),
      (''Authorization'', ''Basic '' @ a)]"

definition first_request :: "transaction \<Rightarrow> request" where
  "first_request tx =
     \<lparr>endpoint = Url (transactionUrl tx),
      headers = request_headers (auth tx), method = ''post'',
      body = JSON_stringify (JObj [(''statements'', JArr (statements tx))])\<rparr>"

definition rollback_request :: "transaction \<Rightarrow> request" where
  "rollback_request tx =
     \<lparr>endpoint = Url (transactionUrl tx),
      headers = request_headers (auth tx), method = ''delete'', body = NoBody\<rparr>"

definition commit_request :: "transaction \<Rightarrow> neo4j_json \<Rightarrow> request" where
  "commit_request tx j =
     \<lparr>endpoint = Url (commit j),
      headers = request_headers (auth tx), method = ''post'', body = NoBody\<rparr>"

text \<open>The three \<^verbatim>\<open>then\<close> handlers and the \<^verbatim>\<open>catch\<close> handler.\<close>

definition on_response :: "transaction \<Rightarrow> response \<Rightarrow> effect list \<times> (js_thrown + neo4j_json)" where
  "on_response tx res =
     (if status res \<noteq> HTTP_OK \<and> status res \<noteq> HTTP_CREATED
      then ([Send (rollback_request tx)], Inl (new_Error (statusText res)))
      else ([], case json res of Malformed err \<Rightarrow> Inl err | Json j \<Rightarrow> Inr j))"

definition on_json :: "transaction \<Rightarrow> neo4j_json \<Rightarrow> effect list \<times> (js_thrown + jsval)" where
  "on_json tx j =
     (if length (errors j) > 0 then ([], Inl (StringVal (message (errors j ! 0))))
      else ([Send (commit_request tx j)], Inr (results j)))"

definition on_commit_response :: "jsval \<Rightarrow> response \<Rightarrow> js_thrown + jsval" where
  "on_commit_response result res =
     (if status res = HTTP_OK then Inr result else Inl (new_Error ''commit failed''))"

definition on_catch :: "js_thrown \<Rightarrow> settled" where
  "on_catch err = Rejected (new_Error (String_of err))"

text \<open>
  A run of \<^verbatim>\<open>execute\<close> in which the first request was sent, given the reply to the
  first request and the reply to the commit request: the effects in their order, the
  object afterwards, and how the promise is settled. That there is a reply to the first
  request means that the promise executor has run to its end: it has built the request,
  handed it to \<^verbatim>\<open>fetch\<close>, attached the handlers, and then set \<^verbatim>\<open>used\<close>. A handler
  runs when the promise before it is fulfilled; a rejection or a \<^verbatim>\<open>throw\<close> goes to the
  \<^verbatim>\<open>catch\<close> handler. No reply to the rollback request is read.
\<close>

definition execute :: "transaction \<Rightarrow> reply \<Rightarrow> reply \<Rightarrow> effect list \<times> transaction \<times> settled" where
  "execute tx r1 r2 =
     (case ([Send (first_request tx), SetUsed], tx\<lparr>used := True\<rparr>) of (es0, tx') \<Rightarrow>
        (case r1 of
           NetworkFailure err \<Rightarrow> (es0, tx', on_catch err)
         | Response res \<Rightarrow>
             (case on_response tx' res of
                (es1, Inl err) \<Rightarrow> (es0 @ es1, tx', on_catch err)
              | (es1, Inr j) \<Rightarrow>
                  (case on_json tx' j of
                     (es2, Inl err) \<Rightarrow> (es0 @ es1 @ es2, tx', on_catch err)
                   | (es2, Inr result) \<Rightarrow>
                       (case r2 of
                          NetworkFailure err \<Rightarrow> (es0 @ es1 @ es2, tx', on_catch err)
                        | Response res2 \<Rightarrow>
                            (case on_commit_response result res2 of
                               Inl err \<Rightarrow> (es0 @ es1 @ es2, tx', on_catch err)
                             | Inr v \<Rightarrow> (es0 @ es1 @ es2, tx', Resolved v)))))))"

subsection \<open>execute, the version sending through ServerRequest\<close>

text \<open>
  The options object is built once; \<^verbatim>\<open>Object.assign\<close> overwrites the method for the
  rollback request, and the path, the method and the body for the commit request, and
  leaves the other fields as they are.
\<close>

definition first_request_sr :: "transaction_sr \<Rightarrow> request" where
  "first_request_sr tx =
     \<lparr>endpoint = HostPortPath (host tx) (port tx) TransactionPath,
      headers = request_headers (auth tx), method = ''post'',
      body = JSON_stringify (JObj [(''statements'', JArr (statements tx))])\<rparr>"

definition rollback_request_sr :: "transaction_sr \<Rightarrow> request" where
  "rollback_request_sr tx = (first_request_sr tx)\<lparr>method := ''delete''\<rparr>"

definition commit_request_sr :: "transaction_sr \<Rightarrow> neo4j_json \<Rightarrow> request" where
  "commit_request_sr tx j =
     (first_request_sr tx)
       \<lparr>endpoint := HostPortPath (host tx) (port tx) (commit j), method := ''post'',
        body := Text []\<rparr>"

definition on_response_sr ::
  "transaction_sr \<Rightarrow> response \<Rightarrow> effect list \<times> (js_thrown + neo4j_json)" where
  "on_response_sr tx res =
     (if status res \<noteq> ServerRequest_HTTP_OK \<and> status res \<noteq> ServerRequest_HTTP_CREATED
      then ([Send (rollback_request_sr tx)],
            Inl (new_Error ''Query failed to return OK or CREATED''))
      else ([], case json res of Malformed err \<Rightarrow> Inl err | Json j \<Rightarrow> Inr j))"

definition on_json_sr :: "transaction_sr \<Rightarrow> neo4j_json \<Rightarrow> effect list \<times> (js_thrown + jsval)" where
  "on_json_sr tx j =
     (if length (errors j) > 0 then ([], Inl (StringVal (message (errors j ! 0))))
      else ([Send (commit_request_sr tx j)], Inr (results j)))"

definition on_commit_response_sr :: "jsval \<Rightarrow> response \<Rightarrow> js_thrown + jsval" where
  "on_commit_response_sr result res =
     (if status res = ServerRequest_HTTP_OK then Inr result
      else Inl (new_Error ''Transaction commit failed''))"

definition execute_sr ::
  "transaction_sr \<Rightarrow> reply \<Rightarrow> reply \<Rightarrow> effect list \<times> transaction_sr \<times> settled" where
  "execute_sr tx r1 r2 =
     (case ([Send (first_request_sr tx), SetUsed], tx\<lparr>used := True\<rparr>) of (es0, tx') \<Rightarrow>
        (case r1 of
           NetworkFailure err \<Rightarrow> (es0, tx', on_catch err)
         | Response res \<Rightarrow>
             (case on_response_sr tx' res of
                (es1, Inl err) \<Rightarrow> (es0 @ es1, tx', on_catch err)
              | (es1, Inr j) \<Rightarrow>
                  (case on_json_sr tx' j of
                     (es2, Inl err) \<Rightarrow> (es0 @ es1 @ es2, tx', on_catch err)
                   | (es2, Inr result) \<Rightarrow>
                       (case r2 of
                          NetworkFailure err \<Rightarrow> (es0 @ es1 @ es2, tx', on_catch err)
                        | Response res2 \<Rightarrow>
                            (case on_commit_response_sr result res2 of
                               Inl err \<Rightarrow> (es0 @ es1 @ es2, tx', on_catch err)
                             | Inr v \<Rightarrow> (es0 @ es1 @ es2, tx', Resolved v)))))))"

subsection \<open>The call of execute, on parameters of any kind\<close>

text \<open>
  \<^verbatim>\<open>addQuery\<close> stores the parameters it is given as they are. The promise executor of
  \<^verbatim>\<open>execute\<close> first hands the statements to \<^verbatim>\<open>JSON.stringify\<close>, which throws on a
  value that has no JSON text, such as a BigInt or an object that holds itself; then it
  hands the request to the transport, by a call (\<^verbatim>\<open>fetch\<close>, \<^verbatim>\<open>ServerRequest.send\<close>)
  that may throw as well; then it attaches the handlers, and only then it sets
  \<^verbatim>\<open>used\<close>. A \<^verbatim>\<open>throw\<close> in the executor ends it, and the promise is rejected with what
  was thrown.

  A parameter is here a value that has a JSON text, or a value on which
  \<^verbatim>\<open>JSON.stringify\<close> throws, given by what is thrown; nothing else is done with a
  parameter. The objects are the ones of the two versions of the class, with statements
  that hold such parameters.
\<close>

datatype js_param = HasJSON jsval | NoJSON js_thrown

record raw_entry =
  raw_statement :: string
  raw_parameters :: js_param

record raw_fields =
  raw_used :: bool
  raw_auth :: string
  raw_statements :: "raw_entry list"

record raw_transaction = raw_fields +
  raw_transactionUrl :: string

record raw_transaction_sr = raw_fields +
  raw_host :: string
  raw_port :: nat

definition raw_Transaction :: "string \<Rightarrow> string \<Rightarrow> raw_transaction" where
  "raw_Transaction url a =
     \<lparr>raw_used = False, raw_auth = a, raw_statements = [], raw_transactionUrl = url\<rparr>"

definition raw_Transaction_sr :: "string \<Rightarrow> nat \<Rightarrow> string \<Rightarrow> raw_transaction_sr" where
  "raw_Transaction_sr h p a =
     \<lparr>raw_used = False, raw_auth = a, raw_statements = [], raw_host = h, raw_port = p\<rparr>"

definition raw_addQuery ::
  "'z raw_fields_scheme \<Rightarrow> queryBuilder \<Rightarrow> js_param
     \<Rightarrow> effect list \<times> 'z raw_fields_scheme \<times> (js_thrown + unit)" where
  "raw_addQuery w qb params =
     (if raw_used w then ([], w, Inl (new_Error ''Can't reuse transaction''))
      else ([], w\<lparr>raw_statements := raw_statements w
                    @ [\<lparr>raw_statement = toString qb, raw_parameters = params\<rparr>]\<rparr>,
            Inr ()))"

text \<open>
  What \<^verbatim>\<open>JSON.stringify\<close> meets when it goes through the statements in their order: it
  throws at the first parameter that has no JSON text, and otherwise the statements are
  the values of the entries.
\<close>

fun stringify_statements :: "raw_entry list \<Rightarrow> js_thrown + jsval list" where
  "stringify_statements [] = Inr []"
| "stringify_statements (e # es) =
     (case raw_parameters e of
        NoJSON err \<Rightarrow> Inl err
      | HasJSON v \<Rightarrow>
          (case stringify_statements es of
             Inl err \<Rightarrow> Inl err
           | Inr vs \<Rightarrow>
               Inr (JObj [(''statement'', JStr (raw_statement e)), (''parameters'', v)] # vs)))"

definition transaction_of :: "raw_transaction \<Rightarrow> jsval list \<Rightarrow> transaction" where
  "transaction_of w vs =
     \<lparr>used = raw_used w, auth = raw_auth w, statements = vs,
      transactionUrl = raw_transactionUrl w\<rparr>"

definition transaction_sr_of :: "raw_transaction_sr \<Rightarrow> jsval list \<Rightarrow> transaction_sr" where
  "transaction_sr_of w vs =
     \<lparr>used = raw_used w, auth = raw_auth w, statements = vs,
      host = raw_host w, port = raw_port w\<rparr>"

text \<open>
  Whether the call that hands the first request to the transport returns what the
  handlers are attached to, or the call, or the attaching, throws. In the version sending
  through ServerRequest the object that is called is made first, by
  \<^verbatim>\<open>new ServerRequest()\<close>, which may throw before any request is handed over.
\<close>

datatype dispatch = Returned | Threw js_thrown

datatype dispatch_sr = Constructed dispatch | NotConstructed js_thrown

text \<open>
  The promise executor, index.js lines 67 to 112: the effects, the object afterwards, and
  either what the executor threw or, if it ran to its end, the transaction with the
  statements that were serialised.
\<close>

definition execute_begin ::
  "dispatch \<Rightarrow> raw_transaction
     \<Rightarrow> effect list \<times> raw_transaction \<times> (js_thrown + transaction)" where
  "execute_begin d w =
     (case stringify_statements (raw_statements w) of
        Inl err \<Rightarrow> ([], w, Inl err)
      | Inr vs \<Rightarrow>
          (case d of
             Threw err \<Rightarrow> ([Send (first_request (transaction_of w vs))], w, Inl err)
           | Returned \<Rightarrow>
               ([Send (first_request (transaction_of w vs)), SetUsed],
                w\<lparr>raw_used := True\<rparr>, Inr (transaction_of w vs))))"

text \<open>
  The call of \<^verbatim>\<open>execute\<close> and what follows it: if the executor threw, the promise is
  rejected with that; if not, the replies are handled as \<^const>\<open>execute\<close> says, and
  no handler writes to the object.
\<close>

definition execute_call ::
  "dispatch \<Rightarrow> raw_transaction \<Rightarrow> reply \<Rightarrow> reply
     \<Rightarrow> effect list \<times> raw_transaction \<times> settled" where
  "execute_call d w r1 r2 =
     (case execute_begin d w of
        (es, w', Inl err) \<Rightarrow> (es, w', Rejected err)
      | (es, w', Inr tx) \<Rightarrow> (fst (execute tx r1 r2), w', snd (snd (execute tx r1 r2))))"

text \<open>The same for the version sending through ServerRequest, lines 32 to 83 there.\<close>

definition execute_begin_sr ::
  "dispatch_sr \<Rightarrow> raw_transaction_sr
     \<Rightarrow> effect list \<times> raw_transaction_sr \<times> (js_thrown + transaction_sr)" where
  "execute_begin_sr d w =
     (case stringify_statements (raw_statements w) of
        Inl err \<Rightarrow> ([], w, Inl err)
      | Inr vs \<Rightarrow>
          (case d of
             NotConstructed err \<Rightarrow> ([], w, Inl err)
           | Constructed (Threw err) \<Rightarrow>
               ([Send (first_request_sr (transaction_sr_of w vs))], w, Inl err)
           | Constructed Returned \<Rightarrow>
               ([Send (first_request_sr (transaction_sr_of w vs)), SetUsed],
                w\<lparr>raw_used := True\<rparr>, Inr (transaction_sr_of w vs))))"

definition execute_call_sr ::
  "dispatch_sr \<Rightarrow> raw_transaction_sr \<Rightarrow> reply \<Rightarrow> reply
     \<Rightarrow> effect list \<times> raw_transaction_sr \<times> settled" where
  "execute_call_sr d w r1 r2 =
     (case execute_begin_sr d w of
        (es, w', Inl err) \<Rightarrow> (es, w', Rejected err)
      | (es, w', Inr tx) \<Rightarrow>
          (fst (execute_sr tx r1 r2), w', snd (snd (execute_sr tx r1 r2))))"

text \<open>Whether \<^verbatim>\<open>used\<close> is set before the first request of a trace is sent.\<close>

fun used_set_before_send :: "effect list \<Rightarrow> bool" where
  "used_set_before_send [] = True"
| "used_set_before_send (SetUsed # es) = True"
| "used_set_before_send (Send r # es) = False"

section \<open>Example objects and replies\<close>

definition example_tx :: transaction where
  "example_tx = Transaction ''http://127.0.0.1:7474/db/data/transaction'' ''bmVvNGo6cGFzc3dvcmQ=''"

definition example_tx_sr :: transaction_sr where
  "example_tx_sr = Transaction_sr ''127.0.0.1'' 7474 ''bmVvNGo6cGFzc3dvcmQ=''"

definition example_json :: neo4j_json where
  "example_json =
     \<lparr>results = JArr [JObj [(''columns'', JArr [JStr ''u'']), (''data'', JArr [])]],
      errors = [],
      commit = ''http://127.0.0.1:7474/db/data/transaction/7/commit''\<rparr>"

definition example_json_errors :: neo4j_json where
  "example_json_errors =
     \<lparr>results = JArr [],
      errors = [\<lparr>code = ''Neo.ClientError.Statement.SyntaxError'', message = ''Invalid input''\<rparr>,
                \<lparr>code = ''Neo.ClientError.Statement.EntityNotFound'', message = ''Not found''\<rparr>],
      commit = ''http://127.0.0.1:7474/db/data/transaction/7/commit''\<rparr>"

definition created_response :: response where
  "created_response = \<lparr>status = 201, statusText = ''Created'', json = Json example_json\<rparr>"

definition created_errors_response :: response where
  "created_errors_response =
     \<lparr>status = 201, statusText = ''Created'', json = Json example_json_errors\<rparr>"

definition ok_response :: response where
  "ok_response = \<lparr>status = 200, statusText = ''OK'', json = Json example_json\<rparr>"

definition not_found_response :: response where
  "not_found_response =
     \<lparr>status = 404, statusText = ''Not Found'',
      json = Malformed (ErrorObj ''SyntaxError'' ''Unexpected token'')\<rparr>"

definition server_error_response :: response where
  "server_error_response =
     \<lparr>status = 500, statusText = ''Internal Server Error'',
      json = Malformed (ErrorObj ''SyntaxError'' ''Unexpected token'')\<rparr>"

definition example_calls :: "(queryBuilder \<times> jsval) list" where
  "example_calls =
     [(\<lparr>q = [''CREATE (u:User {uid: {params}.uid})'']\<rparr>, JObj [(''params'', JObj [(''uid'', JStr ''111'')])]),
      (\<lparr>q = [''MATCH (u)'', ''RETURN u'']\<rparr>, JNull)]"

definition example_props :: "(string \<times> jsval) list" where
  "example_props =
     [(''uid'', JStr ''134''), (''age'', JNum (Prints ''42'')), (''active'', JBool True),
      (''big'', JNum (Prints ''1e+21'')), (''ratio'', JNum (Prints ''-1.5'')),
      (''none'', JNum (Prints ''NaN''))]"

definition example_props_array :: "(string \<times> jsval) list" where
  "example_props_array = [(''uid'', JStr ''134''), (''tags'', JArr [JStr ''a''])]"

definition example_bigint :: js_param where
  "example_bigint = NoJSON (ErrorObj ''TypeError'' ''Do not know how to serialize a BigInt'')"

definition example_raw_tx :: raw_transaction where
  "example_raw_tx =
     raw_Transaction ''http://127.0.0.1:7474/db/data/transaction'' ''bmVvNGo6cGFzc3dvcmQ=''"

definition example_raw_tx_sr :: raw_transaction_sr where
  "example_raw_tx_sr = raw_Transaction_sr ''127.0.0.1'' 7474 ''bmVvNGo6cGFzc3dvcmQ=''"

lemmas example_defs = example_bigint_def example_raw_tx_def example_raw_tx_sr_def example_tx_def example_tx_sr_def example_json_def example_json_errors_def
  created_response_def created_errors_response_def ok_response_def not_found_response_def
  server_error_response_def example_calls_def example_props_def example_props_array_def

lemmas execute_defs = execute_def on_response_def on_json_def
  on_commit_response_def on_catch_def first_request_def rollback_request_def commit_request_def
  new_Error_def HTTP_OK_def HTTP_CREATED_def Transaction_def request_headers_def

lemmas execute_sr_defs = execute_sr_def on_response_sr_def on_json_sr_def
  on_commit_response_sr_def on_catch_def first_request_sr_def rollback_request_sr_def
  commit_request_sr_def new_Error_def ServerRequest_HTTP_OK_def ServerRequest_HTTP_CREATED_def
  Transaction_sr_def request_headers_def TransactionPath_def

section \<open>Properties of QueryBuilder\<close>

lemma strip_breaks_filter:
  "strip_breaks s = filter (\<lambda>c. c \<noteq> CHR 0x0D \<and> c \<noteq> CHR 0x0A \<and> c \<noteq> CHR 0x09) s"
  by (induction s rule: strip_breaks.induct) auto

lemma collapse_ws_head:
  "\<not> is_space c \<Longrightarrow> collapse_ws (c # cs) = c # collapse_ws cs"
  by (cases cs) auto

lemma no_adjacent_ws_Cons:
  "no_adjacent_ws (c # cs) = ((cs \<noteq> [] \<and> is_space c \<longrightarrow> \<not> is_space (hd cs)) \<and> no_adjacent_ws cs)"
  by (cases cs) auto

lemma collapse_ws_hd:
  "s \<noteq> [] \<Longrightarrow> \<not> is_space (hd s) \<Longrightarrow> collapse_ws s \<noteq> [] \<and> hd (collapse_ws s) = hd s"
  by (cases s) (auto simp: collapse_ws_head)

lemma no_adjacent_collapse_ws: "no_adjacent_ws (collapse_ws s)"
proof (induction s rule: collapse_ws.induct)
  case 1
  then show ?case by simp
next
  case (2 c)
  then show ?case by simp
next
  case (3 c d cs)
  show ?case
  proof (cases "is_space c \<and> is_space d")
    case True
    let ?r = "dropWhile is_space cs"
    have ih: "no_adjacent_ws (collapse_ws ?r)" using 3(1) True by simp
    have "collapse_ws ?r \<noteq> [] \<longrightarrow> \<not> is_space (hd (collapse_ws ?r))"
    proof (cases "?r = []")
      case True
      then show ?thesis by (simp del: dropWhile_eq_Nil_conv)
    next
      case False
      then have "\<not> is_space (hd ?r)" by (rule hd_dropWhile)
      with False show ?thesis using collapse_ws_hd by auto
    qed
    with ih True show ?thesis by (simp add: no_adjacent_ws_Cons)
  next
    case False
    have ih: "no_adjacent_ws (collapse_ws (d # cs))" using 3(2) False by simp
    show ?thesis
    proof (cases "is_space c")
      case True
      with False have "\<not> is_space d" by simp
      then have "collapse_ws (d # cs) = d # collapse_ws cs" by (rule collapse_ws_head)
      with ih False \<open>\<not> is_space d\<close> show ?thesis by (simp add: no_adjacent_ws_Cons)
    next
      case nsp: False
      with ih False show ?thesis by (simp add: no_adjacent_ws_Cons)
    qed
  qed
qed

lemma filter_hd_keep:
  "s \<noteq> [] \<Longrightarrow> P (hd s) \<Longrightarrow> filter P s \<noteq> [] \<and> hd (filter P s) = hd s"
  by (cases s) auto

lemma no_adjacent_filter:
  assumes keep: "\<And>c. \<not> is_space c \<Longrightarrow> P c"
  shows "no_adjacent_ws s \<Longrightarrow> no_adjacent_ws (filter P s)"
proof (induction s)
  case Nil
  then show ?case by simp
next
  case (Cons c cs)
  from Cons.prems have tl: "no_adjacent_ws cs" by (simp add: no_adjacent_ws_Cons)
  then have ih: "no_adjacent_ws (filter P cs)" by (rule Cons.IH)
  show ?case
  proof (cases "P c")
    case False
    with ih show ?thesis by simp
  next
    case True
    show ?thesis
    proof (cases "is_space c \<and> cs \<noteq> []")
      case False
      then consider "\<not> is_space c" | "cs = []" by blast
      then show ?thesis using ih True by cases (simp_all add: no_adjacent_ws_Cons)
    next
      case sp: True
      with Cons.prems have "\<not> is_space (hd cs)" by (simp add: no_adjacent_ws_Cons)
      with sp keep have "filter P cs \<noteq> [] \<and> hd (filter P cs) = hd cs"
        using filter_hd_keep by blast
      with ih True \<open>\<not> is_space (hd cs)\<close> show ?thesis by (simp add: no_adjacent_ws_Cons)
    qed
  qed
qed

lemma no_adjacent_drop: "no_adjacent_ws s \<Longrightarrow> no_adjacent_ws (drop n s)"
proof (induction s arbitrary: n)
  case Nil
  then show ?case by simp
next
  case (Cons c cs)
  then show ?case by (cases n) (simp_all add: no_adjacent_ws_Cons)
qed

lemma no_adjacent_take: "no_adjacent_ws s \<Longrightarrow> no_adjacent_ws (take n s)"
proof (induction s arbitrary: n)
  case Nil
  then show ?case by simp
next
  case (Cons c cs)
  show ?case
  proof (cases n)
    case 0
    then show ?thesis by simp
  next
    case (Suc m)
    from Cons.prems have "no_adjacent_ws cs" by (simp add: no_adjacent_ws_Cons)
    then have ih: "no_adjacent_ws (take m cs)" by (rule Cons.IH)
    show ?thesis
    proof (cases "take m cs = []")
      case True
      then have "take n (c # cs) = [c]" by (simp only: Suc take_Suc_Cons)
      then show ?thesis by simp
    next
      case False
      then have "cs \<noteq> []" and "hd (take m cs) = hd cs" by (cases m; cases cs; simp)+
      with Cons.prems ih Suc False show ?thesis by (simp add: no_adjacent_ws_Cons)
    qed
  qed
qed

lemma trim_take:
  "trim s = take (length (dropWhile is_space s) - length (takeWhile is_space (rev (dropWhile is_space s))))
              (dropWhile is_space s)"
proof -
  let ?u = "dropWhile is_space s"
  have "dropWhile is_space (rev ?u) = drop (length (takeWhile is_space (rev ?u))) (rev ?u)"
    by (rule dropWhile_eq_drop)
  then have "trim s = rev (drop (length (takeWhile is_space (rev ?u))) (rev ?u))"
    by (simp only: trim_def)
  then show ?thesis by (simp only: rev_drop rev_rev_ident length_rev)
qed

lemma trim_take_drop:
  "\<exists>k n. trim s = take k (drop n s)"
proof -
  have "dropWhile is_space s = drop (length (takeWhile is_space s)) s"
    by (rule dropWhile_eq_drop)
  then show ?thesis using trim_take [of s] by metis
qed

lemma no_adjacent_trim: "no_adjacent_ws s \<Longrightarrow> no_adjacent_ws (trim s)"
  using trim_take_drop [of s] no_adjacent_take no_adjacent_drop by metis

lemma trim_ends: "trim s = [] \<or> (\<not> is_space (hd (trim s)) \<and> \<not> is_space (last (trim s)))"
proof (cases "trim s = []")
  case True
  then show ?thesis by simp
next
  case False
  let ?u = "dropWhile is_space s"
  let ?v = "dropWhile is_space (rev ?u)"
  have t: "trim s = rev ?v" by (simp add: trim_def)
  with False have v: "?v \<noteq> []" by simp
  then have "\<not> is_space (hd ?v)" by (rule hd_dropWhile)
  then have l: "\<not> is_space (last (trim s))" using v t by (simp add: last_rev)
  obtain k where k: "trim s = take k ?u" using trim_take [of s] by blast
  with False have "0 < k" and u: "?u \<noteq> []" by (cases k; simp)+
  from u have hu: "\<not> is_space (hd ?u)" by (rule hd_dropWhile)
  have "hd (trim s) = hd ?u" using k \<open>0 < k\<close> by (simp add: hd_take)
  with hu l show ?thesis by simp
qed

lemma set_trim: "set (trim s) \<subseteq> set s"
proof -
  obtain k n where "trim s = take k (drop n s)" using trim_take_drop by blast
  then show ?thesis
    using set_take_subset [of k "drop n s"] set_drop_subset [of n s] by simp
qed

lemma collapse_ws_run:
  assumes "2 \<le> length ws" and "list_all is_space ws" and "b = [] \<or> \<not> is_space (hd b)"
  shows "collapse_ws (ws @ b) = CHR 0x20 # collapse_ws b"
proof -
  from assms(1) obtain w1 w2 ws' where ws: "ws = w1 # w2 # ws'"
    by (cases ws; cases "tl ws"; simp)
  with assms(2) have sp: "is_space w1" "is_space w2" "\<forall>x\<in>set ws'. is_space x"
    by (simp_all add: list_all_iff)
  have "dropWhile is_space b = b" using assms(3) by (cases b) auto
  with sp(3) have "dropWhile is_space (ws' @ b) = b" by (simp add: dropWhile_append2)
  with sp(1,2) show ?thesis by (simp add: ws)
qed

lemma last_dropWhile_eq:
  "dropWhile P cs \<noteq> [] \<Longrightarrow> last (dropWhile P cs) = last cs"
proof -
  assume ne: "dropWhile P cs \<noteq> []"
  have "cs = takeWhile P cs @ dropWhile P cs" by simp
  then have "last cs = last (takeWhile P cs @ dropWhile P cs)" by simp
  also have "\<dots> = last (dropWhile P cs)" using ne by (rule last_appendR)
  finally show ?thesis by simp
qed

lemma collapse_ws_split:
  assumes run: "2 \<le> length ws" "list_all is_space ws" "b = [] \<or> \<not> is_space (hd b)"
  shows "a = [] \<or> \<not> is_space (last a) \<Longrightarrow>
         collapse_ws (a @ ws @ b) = collapse_ws a @ CHR 0x20 # collapse_ws b"
proof (induction a rule: collapse_ws.induct)
  case 1
  show ?case using collapse_ws_run [OF run] by simp
next
  case (2 c)
  then have "\<not> is_space c" by simp
  then show ?case using collapse_ws_run [OF run] by (simp add: collapse_ws_head)
next
  case (3 c d cs)
  from "3.prems" have lst: "\<not> is_space (last (d # cs))" by simp
  show ?case
  proof (cases "is_space c \<and> is_space d")
    case True
    with lst have cs: "cs \<noteq> []" and lcs: "\<not> is_space (last cs)" by (auto split: if_splits)
    then have "last cs \<in> set cs" by simp
    then have dw: "dropWhile is_space (cs @ ws @ b) = dropWhile is_space cs @ ws @ b"
      using lcs by (rule dropWhile_append1)
    have "dropWhile is_space cs = [] \<or> \<not> is_space (last (dropWhile is_space cs))"
    proof (cases "dropWhile is_space cs = []")
      case True
      then show ?thesis by blast
    next
      case False
      then have "last (dropWhile is_space cs) = last cs" by (rule last_dropWhile_eq)
      with lcs show ?thesis by simp
    qed
    with "3.IH"(1) True
    have "collapse_ws (dropWhile is_space cs @ ws @ b)
          = collapse_ws (dropWhile is_space cs) @ CHR 0x20 # collapse_ws b" by simp
    with True dw show ?thesis by simp
  next
    case False
    with "3.IH"(2) lst
    have ih: "collapse_ws ((d # cs) @ ws @ b) = collapse_ws (d # cs) @ CHR 0x20 # collapse_ws b"
      by simp
    have 1: "collapse_ws ((c # d # cs) @ ws @ b) = c # collapse_ws ((d # cs) @ ws @ b)"
      using False by auto
    have 2: "collapse_ws (c # d # cs) = c # collapse_ws (d # cs)"
      using False by auto
    from 1 ih have "collapse_ws ((c # d # cs) @ ws @ b) = c # collapse_ws (d # cs) @ CHR 0x20 # collapse_ws b"
      by (rule trans [OF _ arg_cong])
    with 2 show ?thesis by (simp only: append_Cons)
  qed
qed

lemma collapse_ws_fix: "no_adjacent_ws s \<Longrightarrow> collapse_ws s = s"
  by (induction s rule: collapse_ws.induct) auto

lemma strip_breaks_fix:
  "CHR 0x0D \<notin> set s \<Longrightarrow> CHR 0x0A \<notin> set s \<Longrightarrow> CHR 0x09 \<notin> set s \<Longrightarrow> strip_breaks s = s"
  unfolding strip_breaks_filter by (rule filter_True) auto

lemma trim_fix:
  assumes "s = [] \<or> (\<not> is_space (hd s) \<and> \<not> is_space (last s))"
  shows "trim s = s"
proof (cases s)
  case Nil
  then show ?thesis by (simp add: trim_def)
next
  case (Cons c cs)
  with assms have h: "\<not> is_space c" and l: "\<not> is_space (last s)" by simp_all
  from h Cons have 1: "dropWhile is_space s = s" by simp
  from Cons have "rev s \<noteq> []" by simp
  then obtain x xs where r: "rev s = x # xs" by (cases "rev s") auto
  then have "x = hd (rev s)" by simp
  also have "\<dots> = last s" using Cons by (simp add: hd_rev)
  finally have "\<not> is_space x" using l by simp
  with r have "dropWhile is_space (rev s) = rev s" by simp
  with 1 show ?thesis by (simp add: trim_def)
qed

lemma strip_breaks_clean:
  "CHR 0x0D \<notin> set (strip_breaks s) \<and> CHR 0x0A \<notin> set (strip_breaks s) \<and> CHR 0x09 \<notin> set (strip_breaks s)"
  by (simp add: strip_breaks_filter)

lemma no_adjacent_strip_breaks: "no_adjacent_ws s \<Longrightarrow> no_adjacent_ws (strip_breaks s)"
  unfolding strip_breaks_filter
  by (rule no_adjacent_filter) (auto simp: is_space_def)

lemma fold_add_q:
  assumes "\<And>p qb. p \<in> set ps \<Longrightarrow> add qb p = qb\<lparr>q := q qb @ leaves p\<rparr>"
  shows "fold (\<lambda>element qb'. add qb' element) ps qb = qb\<lparr>q := q qb @ concat (map leaves ps)\<rparr>"
  using assms by (induction ps arbitrary: qb) simp_all

lemma add_leaves: "add qb p = qb\<lparr>q := q qb @ leaves p\<rparr>"
proof (induction p arbitrary: qb)
  case (Frag s)
  show ?case by simp
next
  case (Arr ps)
  then show ?case by (simp add: fold_add_q)
qed

lemma fold_Frag: "fold (\<lambda>s qb'. add qb' (Frag s)) xs qb = qb\<lparr>q := q qb @ xs\<rparr>"
  by (induction xs arbitrary: qb) simp_all

lemma add_as_fold: "add qb p = fold (\<lambda>s qb'. add qb' (Frag s)) (leaves p) qb"
proof -
  have "add qb p = qb\<lparr>q := q qb @ leaves p\<rparr>" by (rule add_leaves)
  also have "\<dots> = fold (\<lambda>s qb'. add qb' (Frag s)) (leaves p) qb" by (rule fold_Frag [symmetric])
  finally show ?thesis .
qed


lemma no_adjacent_toString: "no_adjacent_ws (toString qb)"
  unfolding toString_def
  by (intro no_adjacent_trim no_adjacent_strip_breaks no_adjacent_collapse_ws)

lemma toString_no_breaks:
  "CHR 0x0A \<notin> set (toString qb) \<and> CHR 0x0D \<notin> set (toString qb) \<and> CHR 0x09 \<notin> set (toString qb)"
  using set_trim [of "strip_breaks (collapse_ws (join '' '' (q qb)))"]
    strip_breaks_clean [of "collapse_ws (join '' '' (q qb))"]
  unfolding toString_def by blast

lemma toString_fix:
  assumes "no_adjacent_ws (join '' '' (q qb))"
    and "CHR 0x0A \<notin> set (join '' '' (q qb))"
    and "CHR 0x0D \<notin> set (join '' '' (q qb))"
    and "CHR 0x09 \<notin> set (join '' '' (q qb))"
    and "join '' '' (q qb) = []
         \<or> (\<not> is_space (hd (join '' '' (q qb))) \<and> \<not> is_space (last (join '' '' (q qb))))"
  shows "toString qb = join '' '' (q qb)"
  using assms by (simp add: toString_def collapse_ws_fix strip_breaks_fix trim_fix)

lemma trim_split:
  "\<exists>l r. s = l @ trim s @ r \<and> list_all is_space l \<and> list_all is_space r"
proof -
  let ?u = "dropWhile is_space s"
  have 1: "s = takeWhile is_space s @ ?u" by simp
  have "rev ?u = takeWhile is_space (rev ?u) @ dropWhile is_space (rev ?u)" by simp
  then have "rev (rev ?u) = rev (takeWhile is_space (rev ?u) @ dropWhile is_space (rev ?u))"
    by (rule arg_cong)
  then have 2: "?u = trim s @ rev (takeWhile is_space (rev ?u))"
    by (simp only: rev_rev_ident rev_append trim_def)
  have 3: "list_all is_space (takeWhile is_space s)"
    by (auto simp: list_all_iff dest: set_takeWhileD)
  have 4: "list_all is_space (rev (takeWhile is_space (rev ?u)))"
    by (auto simp: list_all_iff dest: set_takeWhileD)
  from 1 2 have "s = takeWhile is_space s @ trim s @ rev (takeWhile is_space (rev ?u))"
    by simp
  with 3 4 show ?thesis by blast
qed

lemma is_space_chars:
  "is_space c = (c \<in> set [CHR 0x09, CHR 0x0A, CHR 0x0B, CHR 0x0C, CHR 0x0D, CHR 0x20, CHR 0xA0])"
  by (auto simp: is_space_def)

text \<open>
  Claim C7, as stated: \<^verbatim>\<open>toString\<close> collapses any run of whitespace characters into one
  space. The pattern \<^verbatim>\<open>/\s\s+/g\<close> matches runs of two or more only. A whitespace
  character that stands alone is not replaced by a space: a vertical tab between two
  letters is kept, and a line feed between two letters is deleted, which joins the
  letters. The rendering in the words of the specification gives \<^verbatim>\<open>"a b"\<close> both times.
\<close>

theorem lone_whitespace_not_collapsed:
  "toString \<lparr>q = [''a'' @ [CHR 0x0B] @ ''b'']\<rparr> = ''a'' @ [CHR 0x0B] @ ''b''
   \<and> is_space (CHR 0x0B)
   \<and> render_as_specified [''a'' @ [CHR 0x0B] @ ''b''] = ''a b''
   \<and> toString \<lparr>q = [''a'' @ [CHR 0x0A] @ ''b'']\<rparr> = ''ab''
   \<and> render_as_specified [''a'' @ [CHR 0x0A] @ ''b''] = ''a b''"
  by (simp add: toString_def render_as_specified_def trim_def is_space_def)

text \<open>
  Claim C7, amended. For every list of fragments, \<^verbatim>\<open>toString\<close> joins the fragments with
  one space between them, replaces every run of two or more whitespace characters by one
  space and leaves a whitespace character that stands alone as it is, then removes every
  line feed, carriage return and tab that is left, and trims: it removes the whitespace
  before the first and behind the last character that is not whitespace, and nothing
  else. The result holds no line feed, carriage return or tab, no two adjacent whitespace
  characters and no whitespace at either end, and a joined text that is already of that
  form is returned as it is. On the fragments \<^verbatim>\<open>"MATCH (u)"\<close> and
  \<^verbatim>\<open>"  RETURN   u\n"\<close> the result is \<^verbatim>\<open>"MATCH (u) RETURN u"\<close>.
\<close>

theorem toString_renders:
  "toString \<lparr>q = [''MATCH (u)'', ''  RETURN   u'' @ [CHR 0x0A]]\<rparr> = ''MATCH (u) RETURN u''
   \<and> toString qb = trim (strip_breaks (collapse_ws (join '' '' (q qb))))
   \<and> join sep [] = [] \<and> join sep [x] = x
   \<and> join sep (x # y # ys) = x @ sep @ join sep (y # ys)
   \<and> is_space c
       = (c \<in> set [CHR 0x09, CHR 0x0A, CHR 0x0B, CHR 0x0C, CHR 0x0D, CHR 0x20, CHR 0xA0])
   \<and> (2 \<le> length ws \<and> list_all is_space ws \<and> (a = [] \<or> \<not> is_space (last a))
        \<and> (b = [] \<or> \<not> is_space (hd b))
      \<longrightarrow> collapse_ws (a @ ws @ b) = collapse_ws a @ '' '' @ collapse_ws b)
   \<and> (no_adjacent_ws s \<longrightarrow> collapse_ws s = s)
   \<and> no_adjacent_ws (collapse_ws s)
   \<and> no_adjacent_ws [] \<and> no_adjacent_ws [c]
   \<and> no_adjacent_ws (c # e # cs) = (\<not> (is_space c \<and> is_space e) \<and> no_adjacent_ws (e # cs))
   \<and> strip_breaks s = filter (\<lambda>c. c \<noteq> CHR 0x0D \<and> c \<noteq> CHR 0x0A \<and> c \<noteq> CHR 0x09) s
   \<and> (\<exists>l r. s = l @ trim s @ r \<and> list_all is_space l \<and> list_all is_space r)
   \<and> (trim s = [] \<or> (\<not> is_space (hd (trim s)) \<and> \<not> is_space (last (trim s))))
   \<and> CHR 0x0A \<notin> set (toString qb) \<and> CHR 0x0D \<notin> set (toString qb) \<and> CHR 0x09 \<notin> set (toString qb)
   \<and> no_adjacent_ws (toString qb)
   \<and> (toString qb = [] \<or> (\<not> is_space (hd (toString qb)) \<and> \<not> is_space (last (toString qb))))
   \<and> (no_adjacent_ws (join '' '' (q qb))
        \<and> CHR 0x0A \<notin> set (join '' '' (q qb)) \<and> CHR 0x0D \<notin> set (join '' '' (q qb))
        \<and> CHR 0x09 \<notin> set (join '' '' (q qb))
        \<and> (join '' '' (q qb) = []
            \<or> (\<not> is_space (hd (join '' '' (q qb))) \<and> \<not> is_space (last (join '' '' (q qb)))))
      \<longrightarrow> toString qb = join '' '' (q qb))"
proof -
  have 1: "toString \<lparr>q = [''MATCH (u)'', ''  RETURN   u'' @ [CHR 0x0A]]\<rparr> = ''MATCH (u) RETURN u''"
    by (simp add: toString_def trim_def is_space_def)
  have 2: "2 \<le> length ws \<and> list_all is_space ws \<and> (a = [] \<or> \<not> is_space (last a))
        \<and> (b = [] \<or> \<not> is_space (hd b))
      \<longrightarrow> collapse_ws (a @ ws @ b) = collapse_ws a @ '' '' @ collapse_ws b"
    using collapse_ws_split [of ws b a] by simp
  have 3: "toString qb = [] \<or> (\<not> is_space (hd (toString qb)) \<and> \<not> is_space (last (toString qb)))"
    unfolding toString_def by (rule trim_ends)
  have 4: "no_adjacent_ws (join '' '' (q qb))
        \<and> CHR 0x0A \<notin> set (join '' '' (q qb)) \<and> CHR 0x0D \<notin> set (join '' '' (q qb))
        \<and> CHR 0x09 \<notin> set (join '' '' (q qb))
        \<and> (join '' '' (q qb) = []
            \<or> (\<not> is_space (hd (join '' '' (q qb))) \<and> \<not> is_space (last (join '' '' (q qb)))))
      \<longrightarrow> toString qb = join '' '' (q qb)"
    using toString_fix [of qb] by blast
  have 5: "toString qb = trim (strip_breaks (collapse_ws (join '' '' (q qb))))"
    by (rule toString_def)
  have 6: "join sep [] = [] \<and> join sep [x] = x
      \<and> join sep (x # y # ys) = x @ sep @ join sep (y # ys)" by simp
  have 7: "no_adjacent_ws s \<longrightarrow> collapse_ws s = s"
    using collapse_ws_fix [of s] by blast
  have 8: "no_adjacent_ws [] \<and> no_adjacent_ws [c]
      \<and> no_adjacent_ws (c # e # cs) = (\<not> (is_space c \<and> is_space e) \<and> no_adjacent_ws (e # cs))"
    by simp
  from 1 5 6 is_space_chars [of c] 2 7 no_adjacent_collapse_ws [of s] 8 strip_breaks_filter [of s]
    trim_split [of s] trim_ends [of s] toString_no_breaks [of qb] no_adjacent_toString [of qb] 3 4
  show ?thesis by (intro conjI) blast+
qed

theorem toString_renders_witness:
  "2 \<le> length ''   '' \<and> list_all is_space ''   ''
   \<and> \<not> is_space (last ''MATCH (u)'') \<and> \<not> is_space (hd ''RETURN u'')
   \<and> collapse_ws (''MATCH (u)'' @ ''   '' @ ''RETURN u'') = ''MATCH (u) RETURN u''
   \<and> no_adjacent_ws (join '' '' [''MATCH (u)'', ''RETURN u''])
   \<and> toString \<lparr>q = [''MATCH (u)'', ''RETURN u'']\<rparr> = ''MATCH (u) RETURN u''
   \<and> toString \<lparr>q = ['' MATCH (u)'', ''RETURN u '']\<rparr> = ''MATCH (u) RETURN u''
   \<and> trim '' MATCH (u) RETURN u '' = ''MATCH (u) RETURN u''"
  using toString_renders [where qb = "\<lparr>q = [''MATCH (u)'', ''RETURN u'']\<rparr>" and ws = "''   ''"
      and a = "''MATCH (u)''" and b = "''RETURN u''"]
    toString_renders [where qb = "\<lparr>q = ['' MATCH (u)'', ''RETURN u '']\<rparr>"
      and s = "'' MATCH (u) RETURN u ''"]
  by (simp add: is_space_def trim_def)





text \<open>
  Claim C9. \<^verbatim>\<open>add\<close> flattens a nested array of fragments in order: adding
  \<^verbatim>\<open>["A", ["B", "C"]]\<close> leaves the object as adding \<^verbatim>\<open>"A"\<close>, \<^verbatim>\<open>"B"\<close> and \<^verbatim>\<open>"C"\<close>
  one after the other does, and adding any nested array leaves it as adding its leaves one
  by one from left to right does, which appends the leaves to the fragment list.
\<close>

theorem add_flattens:
  "add qb (Arr [Frag ''A'', Arr [Frag ''B'', Frag ''C'']])
     = add (add (add qb (Frag ''A'')) (Frag ''B'')) (Frag ''C'')
   \<and> add qb p = fold (\<lambda>s qb'. add qb' (Frag s)) (leaves p) qb
   \<and> q (add qb p) = q qb @ leaves p"
proof (intro conjI)
  show "add qb (Arr [Frag ''A'', Arr [Frag ''B'', Frag ''C'']])
     = add (add (add qb (Frag ''A'')) (Frag ''B'')) (Frag ''C'')"
    by simp
  show "add qb p = fold (\<lambda>s qb'. add qb' (Frag s)) (leaves p) qb" by (rule add_as_fold)
  show "q (add qb p) = q qb @ leaves p" by (simp add: add_leaves)
qed

theorem add_flattens_witness:
  "q (add QueryBuilder (Arr [Frag ''A'', Arr [Frag ''B'', Frag ''C'']])) = [''A'', ''B'', ''C'']
   \<and> add QueryBuilder (Arr [Arr [], Arr [Arr [Frag ''X''], Frag ''Y'']])
       = add (add QueryBuilder (Frag ''X'')) (Frag ''Y'')"
  using add_flattens [where qb = QueryBuilder and p = "Arr [Frag ''A'', Arr [Frag ''B'', Frag ''C'']]"]
    add_flattens [where qb = QueryBuilder and p = "Arr [Arr [], Arr [Arr [Frag ''X''], Frag ''Y'']]"]
  by (simp add: QueryBuilder_def)

section \<open>Properties of toProps\<close>

lemma typeof_not_array: "typeof v \<noteq> ''array''"
  by (cases v) simp_all

lemma renderable_typeof:
  "renderable v = (typeof v = ''string'' \<or> typeof v = ''number'' \<or> typeof v = ''boolean'')"
  by (cases v) simp_all

lemma toProps_forEach_eq:
  "toProps_forEach obj ks ret =
     (if list_all (\<lambda>k. renderable (get_prop obj k)) ks
      then Inr (ret @ map (\<lambda>k. key_value k (get_prop obj k)) ks)
      else Inl (new_Error ''property type not supported''))"
proof (induction ks arbitrary: ret)
  case Nil
  show ?case by simp
next
  case (Cons k ks)
  show ?case by (cases "get_prop obj k") (simp_all add: Cons.IH)
qed

lemma toProps_eq:
  "toProps obj =
     (if list_all (\<lambda>k. renderable (get_prop obj k)) (Object_keys obj)
      then Inr (join '', '' (map (\<lambda>k. key_value k (get_prop obj k)) (Object_keys obj)))
      else Inl (new_Error ''property type not supported''))"
  by (simp add: toProps_def toProps_forEach_eq)

lemma toProps_unsupported:
  assumes "k \<in> set (Object_keys obj)" and "\<not> renderable (get_prop obj k)"
  shows "toProps obj = Inl (new_Error ''property type not supported'')"
proof -
  from assms have "\<not> list_all (\<lambda>k. renderable (get_prop obj k)) (Object_keys obj)"
    by (auto simp: list_all_iff)
  then show ?thesis by (simp add: toProps_eq)
qed

text \<open>
  Claim C10. \<^verbatim>\<open>toProps\<close> renders an object all of whose properties are strings, numbers
  or booleans as the texts \<^verbatim>\<open>key:value\<close> of its properties, joined by a comma and a
  space: a string value stands between double quotes, a number as the runtime prints it,
  a boolean as \<^verbatim>\<open>true\<close> or \<^verbatim>\<open>false\<close>. If some property has a value of another type,
  it throws the error "property type not supported"; that holds for every array, since
  \<^verbatim>\<open>typeof\<close> never gives \<^verbatim>\<open>'array'\<close>.
\<close>

theorem toProps_renders_or_throws:
  "toProps obj =
     (if list_all (\<lambda>k. renderable (get_prop obj k)) (Object_keys obj)
      then Inr (join '', '' (map (\<lambda>k. key_value k (get_prop obj k)) (Object_keys obj)))
      else Inl (new_Error ''property type not supported''))
   \<and> toProps [(k, JStr s)] = Inr (k @ '':'' @ [CHR 0x22] @ s @ [CHR 0x22])
   \<and> toProps [(k, JNum (Prints digits))] = Inr (k @ '':'' @ digits)
   \<and> toProps [(k, JBool True)] = Inr (k @ '':true'')
   \<and> toProps [(k, JBool False)] = Inr (k @ '':false'')
   \<and> toProps [(k, JStr s), (k', JBool True)]
       = (if k' = k then Inr (k @ '':'' @ [CHR 0x22] @ s @ [CHR 0x22] @ '', '' @ k @ '':''
                              @ [CHR 0x22] @ s @ [CHR 0x22])
          else Inr (k @ '':'' @ [CHR 0x22] @ s @ [CHR 0x22] @ '', '' @ k' @ '':true''))
   \<and> key_value k (JStr s) = k @ '':'' @ [CHR 0x22] @ s @ [CHR 0x22]
   \<and> key_value k (JNum (Prints digits)) = k @ '':'' @ digits
   \<and> key_value k (JBool b) = k @ '':'' @ (if b then ''true'' else ''false'')
   \<and> renderable v = (typeof v = ''string'' \<or> typeof v = ''number'' \<or> typeof v = ''boolean'')
   \<and> renderable v = (\<exists>s n b. v = JStr s \<or> v = JNum n \<or> v = JBool b)
   \<and> typeof v \<noteq> ''array''
   \<and> typeof (JArr vs) = ''object'' \<and> typeof (JObj kvs) = ''object'' \<and> typeof JNull = ''object''
   \<and> typeof JUndefined = ''undefined''
   \<and> \<not> renderable (JArr vs)
   \<and> toProps [(k, JArr vs)] = Inl (new_Error ''property type not supported'')
   \<and> (k \<in> set (Object_keys obj) \<and> \<not> renderable (get_prop obj k)
        \<longrightarrow> toProps obj = Inl (new_Error ''property type not supported''))
   \<and> (k \<in> set (Object_keys obj) \<and> get_prop obj k = JArr vs
        \<longrightarrow> toProps obj = Inl (new_Error ''property type not supported''))"
proof -
  have 1: "k \<in> set (Object_keys obj) \<and> get_prop obj k = JArr vs
        \<longrightarrow> toProps obj = Inl (new_Error ''property type not supported'')"
    using toProps_unsupported [of k obj] by simp
  have 2: "toProps [(k, JStr s)] = Inr (k @ '':'' @ [CHR 0x22] @ s @ [CHR 0x22])
   \<and> toProps [(k, JNum (Prints digits))] = Inr (k @ '':'' @ digits)
   \<and> toProps [(k, JBool True)] = Inr (k @ '':true'')
   \<and> toProps [(k, JBool False)] = Inr (k @ '':false'')
   \<and> toProps [(k, JArr vs)] = Inl (new_Error ''property type not supported'')"
    by (simp add: toProps_def Object_keys_def get_prop_def)
  have 3: "toProps [(k, JStr s), (k', JBool True)]
       = (if k' = k then Inr (k @ '':'' @ [CHR 0x22] @ s @ [CHR 0x22] @ '', '' @ k @ '':''
                              @ [CHR 0x22] @ s @ [CHR 0x22])
          else Inr (k @ '':'' @ [CHR 0x22] @ s @ [CHR 0x22] @ '', '' @ k' @ '':true''))"
    by (simp add: toProps_def Object_keys_def get_prop_def)
  have 4: "renderable v = (\<exists>s n b. v = JStr s \<or> v = JNum n \<or> v = JBool b)"
    by (cases v) simp_all
  from 1 2 3 4 toProps_eq [of obj] renderable_typeof [of v] typeof_not_array [of v]
    toProps_unsupported [of k obj]
  show ?thesis by simp
qed

theorem toProps_renders_or_throws_witness:
  "list_all (\<lambda>k. renderable (get_prop example_props k)) (Object_keys example_props)
   \<and> toProps example_props
       = Inr (''uid:'' @ [CHR 0x22] @ ''134'' @ [CHR 0x22]
              @ '', age:42, active:true, big:1e+21, ratio:-1.5, none:NaN'')
   \<and> ''tags'' \<in> set (Object_keys example_props_array)
   \<and> get_prop example_props_array ''tags'' = JArr [JStr ''a'']
   \<and> toProps example_props_array = Inl (ErrorObj ''Error'' ''property type not supported'')"
  using toProps_renders_or_throws [where obj = example_props and k = "''uid''"
      and vs = "[]" and s = "''134''" and digits = "''42''" and k' = "''age''" and v = JNull]
    toProps_renders_or_throws [where obj = example_props_array and k = "''tags''"
      and vs = "[JStr ''a'']" and s = "''134''" and digits = "''42''" and k' = "''age''"
      and v = JNull]
  by (simp add: example_props_def example_props_array_def Object_keys_def get_prop_def
      new_Error_def toProps_def)

section \<open>Properties of Transaction\<close>



lemma execute_trace_begin: "take 2 (fst (execute tx rf rc)) = [Send (first_request tx), SetUsed]"
  by (simp add: execute_def split: reply.splits prod.splits sum.splits)

lemma execute_sr_trace_begin:
  "take 2 (fst (execute_sr ts rf rc)) = [Send (first_request_sr ts), SetUsed]"
  by (simp add: execute_sr_def split: reply.splits prod.splits sum.splits)


text \<open>
  Claim C1, as stated: \<^verbatim>\<open>execute\<close> sets \<^verbatim>\<open>used\<close> before it issues any network call.
  In both versions the first request is handed to the transport before the assignment: the
  trace of \<^verbatim>\<open>execute\<close> begins with the request.
\<close>

theorem first_request_precedes_used:
  "\<not> used_set_before_send
        (fst (execute example_tx (Response created_response) (Response ok_response)))
   \<and> \<not> used_set_before_send
        (fst (execute_sr example_tx_sr (Response created_response) (Response ok_response)))"
proof
  show "\<not> used_set_before_send
        (fst (execute example_tx (Response created_response) (Response ok_response)))"
    by (simp add: execute_defs example_defs)
  show "\<not> used_set_before_send
        (fst (execute_sr example_tx_sr (Response created_response) (Response ok_response)))"
    by (simp add: execute_sr_defs example_defs)
qed

lemma raw_addQuery_used:
  "raw_used w \<Longrightarrow> raw_addQuery w qb p = ([], w, Inl (new_Error ''Can't reuse transaction''))"
  by (simp add: raw_addQuery_def)

lemma stringify_statements_NoJSON:
  "stringify_statements es = Inr vs \<Longrightarrow>
   stringify_statements (es @ [\<lparr>raw_statement = t, raw_parameters = NoJSON err\<rparr>]) = Inl err"
proof (induction es arbitrary: vs)
  case Nil
  show ?case by simp
next
  case (Cons e es)
  then show ?case by (cases "raw_parameters e"; cases "stringify_statements es") simp_all
qed

lemma stringify_statements_HasJSON:
  "stringify_statements (map (\<lambda>(t, v). \<lparr>raw_statement = t, raw_parameters = HasJSON v\<rparr>) tvs)
     = Inr (map (\<lambda>(t, v). JObj [(''statement'', JStr t), (''parameters'', v)]) tvs)"
  by (induction tvs) (simp_all add: case_prod_beta)

lemma stringify_statements_first_NoJSON:
  "stringify_statements
       (map (\<lambda>(t, v). \<lparr>raw_statement = t, raw_parameters = HasJSON v\<rparr>) tvs
        @ \<lparr>raw_statement = t', raw_parameters = NoJSON err\<rparr> # rest)
     = Inl err"
  by (induction tvs) (simp_all add: case_prod_beta)

lemma execute_call_returned:
  "stringify_statements (raw_statements w) = Inr vs \<Longrightarrow>
   execute_call Returned w rf rc
     = (fst (execute (transaction_of w vs) rf rc), w\<lparr>raw_used := True\<rparr>,
        snd (snd (execute (transaction_of w vs) rf rc)))"
  by (simp add: execute_call_def execute_begin_def)

lemma execute_call_sr_returned:
  "stringify_statements (raw_statements w) = Inr vs \<Longrightarrow>
   execute_call_sr (Constructed Returned) w rf rc
     = (fst (execute_sr (transaction_sr_of w vs) rf rc), w\<lparr>raw_used := True\<rparr>,
        snd (snd (execute_sr (transaction_sr_of w vs) rf rc)))"
  by (simp add: execute_call_sr_def execute_begin_sr_def)

text \<open>
  Claim C1, amended. When the promise executor of \<^verbatim>\<open>execute\<close> does not throw, that is,
  \<^verbatim>\<open>JSON.stringify\<close> serialises the statements and the call of the transport returns,
  \<^verbatim>\<open>used\<close> is set synchronously, as the last step of the executor: after the first
  request has been handed to the transport, before \<^verbatim>\<open>execute\<close> returns and so before any
  reply is handled. No handler changes the object afterwards, and every \<^verbatim>\<open>addQuery\<close>
  call on the object that \<^verbatim>\<open>execute\<close> leaves behind, also while the first request is in
  flight, is rejected with the reuse error. When \<^verbatim>\<open>JSON.stringify\<close> throws, as it does
  on a parameter without JSON text that \<^verbatim>\<open>addQuery\<close> has stored, nothing is sent; when
  it or the call of the transport throws, the promise is rejected with what was thrown,
  \<^verbatim>\<open>used\<close> stays as it was, and an \<^verbatim>\<open>addQuery\<close> call on the transaction, if it was
  unused, is accepted afterwards.
\<close>

theorem execute_sets_used_synchronously:
  "(stringify_statements (raw_statements w) = Inr vs \<longrightarrow>
      execute_begin Returned w
        = ([Send (first_request (transaction_of w vs)), SetUsed], w\<lparr>raw_used := True\<rparr>,
           Inr (transaction_of w vs))
      \<and> take 2 (fst (execute_call Returned w rf rc))
          = [Send (first_request (transaction_of w vs)), SetUsed]
      \<and> fst (snd (execute_call Returned w rf rc)) = w\<lparr>raw_used := True\<rparr>
      \<and> snd (snd (execute_call Returned w rf rc))
          = snd (snd (execute (transaction_of w vs) rf rc))
      \<and> raw_addQuery (fst (snd (execute_begin Returned w))) qb p
          = ([], w\<lparr>raw_used := True\<rparr>, Inl (new_Error ''Can't reuse transaction''))
      \<and> raw_addQuery (fst (snd (execute_call Returned w rf rc))) qb p
          = ([], w\<lparr>raw_used := True\<rparr>, Inl (new_Error ''Can't reuse transaction''))
      \<and> execute_call (Threw errd) w rf rc
          = ([Send (first_request (transaction_of w vs))], w, Rejected errd))
   \<and> (stringify_statements (raw_statements w) = Inl err \<longrightarrow>
        execute_call d w rf rc = ([], w, Rejected err))
   \<and> (\<not> raw_used w \<and> (stringify_statements (raw_statements w) = Inl err \<or> d = Threw errd) \<longrightarrow>
        raw_addQuery (fst (snd (execute_call d w rf rc))) qb p
          = ([], w\<lparr>raw_statements := raw_statements w
                      @ [\<lparr>raw_statement = toString qb, raw_parameters = p\<rparr>]\<rparr>, Inr ()))
   \<and> (\<not> raw_used w \<and> stringify_statements (raw_statements w) = Inr vs \<longrightarrow>
        stringify_statements (raw_statements (fst (snd (raw_addQuery w qb (NoJSON err)))))
          = Inl err)
   \<and> stringify_statements (map (\<lambda>(t, v). \<lparr>raw_statement = t, raw_parameters = HasJSON v\<rparr>) tvs)
       = Inr (map (\<lambda>(t, v). JObj [(''statement'', JStr t), (''parameters'', v)]) tvs)
   \<and> stringify_statements
         (map (\<lambda>(t, v). \<lparr>raw_statement = t, raw_parameters = HasJSON v\<rparr>) tvs
          @ \<lparr>raw_statement = t', raw_parameters = NoJSON err\<rparr> # rest)
       = Inl err
   \<and> (stringify_statements (raw_statements ws) = Inr vs \<longrightarrow>
      execute_begin_sr (Constructed Returned) ws
        = ([Send (first_request_sr (transaction_sr_of ws vs)), SetUsed], ws\<lparr>raw_used := True\<rparr>,
           Inr (transaction_sr_of ws vs))
      \<and> take 2 (fst (execute_call_sr (Constructed Returned) ws rf rc))
          = [Send (first_request_sr (transaction_sr_of ws vs)), SetUsed]
      \<and> fst (snd (execute_call_sr (Constructed Returned) ws rf rc)) = ws\<lparr>raw_used := True\<rparr>
      \<and> snd (snd (execute_call_sr (Constructed Returned) ws rf rc))
          = snd (snd (execute_sr (transaction_sr_of ws vs) rf rc))
      \<and> raw_addQuery (fst (snd (execute_call_sr (Constructed Returned) ws rf rc))) qb p
          = ([], ws\<lparr>raw_used := True\<rparr>, Inl (new_Error ''Can't reuse transaction''))
      \<and> execute_call_sr (Constructed (Threw errd)) ws rf rc
          = ([Send (first_request_sr (transaction_sr_of ws vs))], ws, Rejected errd)
      \<and> execute_call_sr (NotConstructed errd) ws rf rc = ([], ws, Rejected errd))
   \<and> (stringify_statements (raw_statements ws) = Inl err \<longrightarrow>
        execute_call_sr ds ws rf rc = ([], ws, Rejected err))
   \<and> (\<not> raw_used ws
        \<and> (stringify_statements (raw_statements ws) = Inl err \<or> ds = Constructed (Threw errd)
             \<or> ds = NotConstructed errd) \<longrightarrow>
        raw_addQuery (fst (snd (execute_call_sr ds ws rf rc))) qb p
          = ([], ws\<lparr>raw_statements := raw_statements ws
                       @ [\<lparr>raw_statement = toString qb, raw_parameters = p\<rparr>]\<rparr>, Inr ()))"
proof -
  have a: "stringify_statements (raw_statements w) = Inr vs \<longrightarrow>
      execute_begin Returned w
        = ([Send (first_request (transaction_of w vs)), SetUsed], w\<lparr>raw_used := True\<rparr>,
           Inr (transaction_of w vs))
      \<and> take 2 (fst (execute_call Returned w rf rc))
          = [Send (first_request (transaction_of w vs)), SetUsed]
      \<and> fst (snd (execute_call Returned w rf rc)) = w\<lparr>raw_used := True\<rparr>
      \<and> snd (snd (execute_call Returned w rf rc))
          = snd (snd (execute (transaction_of w vs) rf rc))
      \<and> raw_addQuery (fst (snd (execute_begin Returned w))) qb p
          = ([], w\<lparr>raw_used := True\<rparr>, Inl (new_Error ''Can't reuse transaction''))
      \<and> raw_addQuery (fst (snd (execute_call Returned w rf rc))) qb p
          = ([], w\<lparr>raw_used := True\<rparr>, Inl (new_Error ''Can't reuse transaction''))
      \<and> execute_call (Threw errd) w rf rc
          = ([Send (first_request (transaction_of w vs))], w, Rejected errd)"
    by (simp add: execute_call_returned execute_trace_begin raw_addQuery_used)
      (simp add: execute_begin_def execute_call_def raw_addQuery_def)
  have b: "stringify_statements (raw_statements w) = Inl err \<longrightarrow>
        execute_call d w rf rc = ([], w, Rejected err)"
    by (simp add: execute_call_def execute_begin_def)
  have c: "\<not> raw_used w \<and> (stringify_statements (raw_statements w) = Inl err \<or> d = Threw errd) \<longrightarrow>
        raw_addQuery (fst (snd (execute_call d w rf rc))) qb p
          = ([], w\<lparr>raw_statements := raw_statements w
                      @ [\<lparr>raw_statement = toString qb, raw_parameters = p\<rparr>]\<rparr>, Inr ())"
    by (auto simp: execute_call_def execute_begin_def raw_addQuery_def split: sum.splits)
  have e: "\<not> raw_used w \<and> stringify_statements (raw_statements w) = Inr vs \<longrightarrow>
        stringify_statements (raw_statements (fst (snd (raw_addQuery w qb (NoJSON err)))))
          = Inl err"
    by (simp add: raw_addQuery_def stringify_statements_NoJSON)
  have a': "stringify_statements (raw_statements ws) = Inr vs \<longrightarrow>
      execute_begin_sr (Constructed Returned) ws
        = ([Send (first_request_sr (transaction_sr_of ws vs)), SetUsed], ws\<lparr>raw_used := True\<rparr>,
           Inr (transaction_sr_of ws vs))
      \<and> take 2 (fst (execute_call_sr (Constructed Returned) ws rf rc))
          = [Send (first_request_sr (transaction_sr_of ws vs)), SetUsed]
      \<and> fst (snd (execute_call_sr (Constructed Returned) ws rf rc)) = ws\<lparr>raw_used := True\<rparr>
      \<and> snd (snd (execute_call_sr (Constructed Returned) ws rf rc))
          = snd (snd (execute_sr (transaction_sr_of ws vs) rf rc))
      \<and> raw_addQuery (fst (snd (execute_call_sr (Constructed Returned) ws rf rc))) qb p
          = ([], ws\<lparr>raw_used := True\<rparr>, Inl (new_Error ''Can't reuse transaction''))
      \<and> execute_call_sr (Constructed (Threw errd)) ws rf rc
          = ([Send (first_request_sr (transaction_sr_of ws vs))], ws, Rejected errd)
      \<and> execute_call_sr (NotConstructed errd) ws rf rc = ([], ws, Rejected errd)"
    by (simp add: execute_call_sr_returned execute_sr_trace_begin raw_addQuery_used)
      (simp add: execute_begin_sr_def execute_call_sr_def raw_addQuery_def)
  have b': "stringify_statements (raw_statements ws) = Inl err \<longrightarrow>
        execute_call_sr ds ws rf rc = ([], ws, Rejected err)"
    by (simp add: execute_call_sr_def execute_begin_sr_def)
  have c': "\<not> raw_used ws
        \<and> (stringify_statements (raw_statements ws) = Inl err \<or> ds = Constructed (Threw errd)
             \<or> ds = NotConstructed errd) \<longrightarrow>
        raw_addQuery (fst (snd (execute_call_sr ds ws rf rc))) qb p
          = ([], ws\<lparr>raw_statements := raw_statements ws
                       @ [\<lparr>raw_statement = toString qb, raw_parameters = p\<rparr>]\<rparr>, Inr ())"
    by (auto simp: execute_call_sr_def execute_begin_sr_def raw_addQuery_def split: sum.splits)
  from a b c e stringify_statements_HasJSON [of tvs]
    stringify_statements_first_NoJSON [of tvs t' err rest] a' b' c'
  show ?thesis by (intro conjI)
qed

theorem execute_sets_used_synchronously_witness:
  "stringify_statements
       (raw_statements (fst (snd (raw_addQuery example_raw_tx \<lparr>q = [''RETURN 1'']\<rparr> (HasJSON JNull)))))
     = Inr [JObj [(''statement'', JStr ''RETURN 1''), (''parameters'', JNull)]]
   \<and> fst (snd (execute_call Returned
         (fst (snd (raw_addQuery example_raw_tx \<lparr>q = [''RETURN 1'']\<rparr> (HasJSON JNull))))
         (Response created_response) (Response ok_response)))
       = (fst (snd (raw_addQuery example_raw_tx \<lparr>q = [''RETURN 1'']\<rparr> (HasJSON JNull))))
           \<lparr>raw_used := True\<rparr>
   \<and> \<not> raw_used example_raw_tx
   \<and> stringify_statements
       (raw_statements (fst (snd (raw_addQuery example_raw_tx \<lparr>q = [''RETURN 1'']\<rparr> example_bigint))))
     = Inl (ErrorObj ''TypeError'' ''Do not know how to serialize a BigInt'')
   \<and> execute_call Returned
         (fst (snd (raw_addQuery example_raw_tx \<lparr>q = [''RETURN 1'']\<rparr> example_bigint)))
         (Response created_response) (Response ok_response)
       = ([], fst (snd (raw_addQuery example_raw_tx \<lparr>q = [''RETURN 1'']\<rparr> example_bigint)),
          Rejected (ErrorObj ''TypeError'' ''Do not know how to serialize a BigInt''))
   \<and> snd (snd (raw_addQuery
         (fst (snd (execute_call Returned
            (fst (snd (raw_addQuery example_raw_tx \<lparr>q = [''RETURN 1'']\<rparr> example_bigint)))
            (Response created_response) (Response ok_response))))
         \<lparr>q = [''RETURN 2'']\<rparr> (HasJSON JNull)))
       = Inr ()
   \<and> execute_call_sr (Constructed Returned)
         (fst (snd (raw_addQuery example_raw_tx_sr \<lparr>q = [''RETURN 1'']\<rparr> example_bigint)))
         (Response created_response) (Response ok_response)
       = ([], fst (snd (raw_addQuery example_raw_tx_sr \<lparr>q = [''RETURN 1'']\<rparr> example_bigint)),
          Rejected (ErrorObj ''TypeError'' ''Do not know how to serialize a BigInt''))"
  using execute_sets_used_synchronously
      [where w = "fst (snd (raw_addQuery example_raw_tx \<lparr>q = [''RETURN 1'']\<rparr> (HasJSON JNull)))"
        and vs = "[JObj [(''statement'', JStr ''RETURN 1''), (''parameters'', JNull)]]"
        and rf = "Response created_response" and rc = "Response ok_response"
        and ws = example_raw_tx_sr and d = Returned and ds = "Constructed Returned"
        and qb = "\<lparr>q = [''RETURN 2'']\<rparr>" and p = "HasJSON JNull"]
    execute_sets_used_synchronously
      [where w = "fst (snd (raw_addQuery example_raw_tx \<lparr>q = [''RETURN 1'']\<rparr> example_bigint))"
        and err = "ErrorObj ''TypeError'' ''Do not know how to serialize a BigInt''"
        and rf = "Response created_response" and rc = "Response ok_response"
        and ws = "fst (snd (raw_addQuery example_raw_tx_sr \<lparr>q = [''RETURN 1'']\<rparr> example_bigint))"
        and d = Returned and ds = "Constructed Returned"
        and qb = "\<lparr>q = [''RETURN 2'']\<rparr>" and p = "HasJSON JNull"]
  by (simp add: example_raw_tx_def example_raw_tx_sr_def example_bigint_def raw_Transaction_def
      raw_Transaction_sr_def raw_addQuery_def toString_def trim_def is_space_def)

lemma execute_failure:
  "status res \<noteq> 200 \<Longrightarrow> status res \<noteq> 201 \<Longrightarrow>
   execute tx (Response res) rc
     = ([Send (first_request tx), SetUsed, Send (rollback_request tx)], tx\<lparr>used := True\<rparr>,
        Rejected (new_Error (String_of (new_Error (statusText res)))))"
  by (simp add: execute_def on_response_def on_catch_def HTTP_OK_def
      HTTP_CREATED_def rollback_request_def)

lemma execute_sr_failure:
  "status res \<noteq> 200 \<Longrightarrow> status res \<noteq> 201 \<Longrightarrow>
   execute_sr ts (Response res) rc
     = ([Send (first_request_sr ts), SetUsed, Send (rollback_request_sr ts)], ts\<lparr>used := True\<rparr>,
        Rejected (new_Error ''Error: Query failed to return OK or CREATED''))"
  by (simp add: execute_sr_def on_response_sr_def on_catch_def
      ServerRequest_HTTP_OK_def ServerRequest_HTTP_CREATED_def rollback_request_sr_def
      first_request_sr_def new_Error_def)

text \<open>
  Claim C2, as stated: after a first status other than 200 and 201 the promise is rejected
  with an error that names the failure as "query did not return OK or CREATED". In
  index.js the error thrown carries the status text of the response instead, so after a
  status 500 with the text "Internal Server Error" the rejection has the message
  "Error: Internal Server Error".
\<close>

theorem status_failure_carries_status_text:
  "snd (snd (execute example_tx (Response server_error_response) (Response ok_response)))
     = Rejected (ErrorObj ''Error'' ''Error: Internal Server Error'')
   \<and> snd (snd (execute example_tx (Response server_error_response) (Response ok_response)))
     \<noteq> Rejected (ErrorObj ''Error'' ''Error: Query failed to return OK or CREATED'')"
  by (simp add: execute_defs example_defs)

text \<open>
  Claim C2, amended. When the first request is answered with a status other than 200 and
  201, \<^verbatim>\<open>execute\<close> sends one more request and no other, a DELETE to the endpoint of the
  first request, whose reply it does not read; it sends no commit request; and it rejects.
  The version sending through ServerRequest rejects with an error whose message is
  "Error: Query failed to return OK or CREATED"; the version of index.js rejects with an
  error whose message is the status text of the response behind "Error: ", or "Error" if
  that text is empty.
\<close>

theorem execute_status_failure:
  "status res \<noteq> 200 \<and> status res \<noteq> 201 \<longrightarrow>
     sent (fst (execute tx (Response res) rc)) = [first_request tx, rollback_request tx]
     \<and> endpoint (first_request tx) = Url (transactionUrl tx)
     \<and> endpoint (rollback_request tx) = Url (transactionUrl tx)
     \<and> method (rollback_request tx) = ''delete''
     \<and> commit_request tx j \<notin> set (sent (fst (execute tx (Response res) rc)))
     \<and> snd (snd (execute tx (Response res) rc))
         = Rejected (new_Error (if statusText res = [] then ''Error''
                                else ''Error: '' @ statusText res))
     \<and> sent (fst (execute_sr ts (Response res) rc)) = [first_request_sr ts, rollback_request_sr ts]
     \<and> endpoint (rollback_request_sr ts) = endpoint (first_request_sr ts)
     \<and> method (rollback_request_sr ts) = ''delete''
     \<and> commit_request_sr ts j \<notin> set (sent (fst (execute_sr ts (Response res) rc)))
     \<and> snd (snd (execute_sr ts (Response res) rc))
         = Rejected (new_Error ''Error: Query failed to return OK or CREATED'')"
  by (simp add: execute_failure execute_sr_failure first_request_def
      rollback_request_def commit_request_def first_request_sr_def rollback_request_sr_def
      commit_request_sr_def new_Error_def)

theorem execute_status_failure_witness:
  "status server_error_response \<noteq> 200 \<and> status server_error_response \<noteq> 201
   \<and> sent (fst (execute example_tx (Response server_error_response) (Response ok_response)))
       = [first_request example_tx, rollback_request example_tx]
   \<and> snd (snd (execute example_tx (Response server_error_response) (Response ok_response)))
       = Rejected (ErrorObj ''Error'' ''Error: Internal Server Error'')
   \<and> sent (fst (execute_sr example_tx_sr (Response server_error_response) (Response ok_response)))
       = [first_request_sr example_tx_sr, rollback_request_sr example_tx_sr]
   \<and> snd (snd (execute_sr example_tx_sr (Response server_error_response) (Response ok_response)))
       = Rejected (ErrorObj ''Error'' ''Error: Query failed to return OK or CREATED'')"
  using execute_status_failure [where res = server_error_response and tx = example_tx
      and ts = example_tx_sr and rc = "Response ok_response" and j = example_json]
  by (simp add: server_error_response_def new_Error_def)

lemma execute_errors:
  "status res = 200 \<or> status res = 201 \<Longrightarrow> json res = Json j \<Longrightarrow> errors j \<noteq> [] \<Longrightarrow>
   execute tx (Response res) rc
     = ([Send (first_request tx), SetUsed], tx\<lparr>used := True\<rparr>,
        Rejected (new_Error (message (hd (errors j)))))"
  by (auto simp: execute_def on_response_def on_json_def on_catch_def
      HTTP_OK_def HTTP_CREATED_def hd_conv_nth)

lemma execute_sr_errors:
  "status res = 200 \<or> status res = 201 \<Longrightarrow> json res = Json j \<Longrightarrow> errors j \<noteq> [] \<Longrightarrow>
   execute_sr ts (Response res) rc
     = ([Send (first_request_sr ts), SetUsed], ts\<lparr>used := True\<rparr>,
        Rejected (new_Error (message (hd (errors j)))))"
  by (auto simp: execute_sr_def on_response_sr_def on_json_sr_def
      on_catch_def ServerRequest_HTTP_OK_def ServerRequest_HTTP_CREATED_def hd_conv_nth)

text \<open>
  Claim C3. When the first request is answered with status 200 or 201 and a body whose
  \<^verbatim>\<open>errors\<close> array is not empty, \<^verbatim>\<open>execute\<close> rejects with an error whose message is
  the message of the first entry of \<^verbatim>\<open>errors\<close>, and the first request is the only request
  it sends: no DELETE is sent.
\<close>

theorem execute_statement_errors:
  "(status res = 200 \<or> status res = 201) \<and> json res = Json j \<and> errors j \<noteq> [] \<longrightarrow>
     snd (snd (execute tx (Response res) rc)) = Rejected (new_Error (message (hd (errors j))))
     \<and> sent (fst (execute tx (Response res) rc)) = [first_request tx]
     \<and> ''delete'' \<notin> set (map method (sent (fst (execute tx (Response res) rc))))
     \<and> snd (snd (execute_sr ts (Response res) rc)) = Rejected (new_Error (message (hd (errors j))))
     \<and> sent (fst (execute_sr ts (Response res) rc)) = [first_request_sr ts]
     \<and> ''delete'' \<notin> set (map method (sent (fst (execute_sr ts (Response res) rc))))"
proof
  assume h: "(status res = 200 \<or> status res = 201) \<and> json res = Json j \<and> errors j \<noteq> []"
  then have 1: "execute tx (Response res) rc
     = ([Send (first_request tx), SetUsed], tx\<lparr>used := True\<rparr>,
        Rejected (new_Error (message (hd (errors j)))))"
    using execute_errors by blast
  from h have 2: "execute_sr ts (Response res) rc
     = ([Send (first_request_sr ts), SetUsed], ts\<lparr>used := True\<rparr>,
        Rejected (new_Error (message (hd (errors j)))))"
    using execute_sr_errors by blast
  show "snd (snd (execute tx (Response res) rc)) = Rejected (new_Error (message (hd (errors j))))
     \<and> sent (fst (execute tx (Response res) rc)) = [first_request tx]
     \<and> ''delete'' \<notin> set (map method (sent (fst (execute tx (Response res) rc))))
     \<and> snd (snd (execute_sr ts (Response res) rc)) = Rejected (new_Error (message (hd (errors j))))
     \<and> sent (fst (execute_sr ts (Response res) rc)) = [first_request_sr ts]
     \<and> ''delete'' \<notin> set (map method (sent (fst (execute_sr ts (Response res) rc))))"
    by (simp add: 1 2 first_request_def first_request_sr_def)
qed

theorem execute_statement_errors_witness:
  "(status created_errors_response = 200 \<or> status created_errors_response = 201)
   \<and> json created_errors_response = Json example_json_errors
   \<and> errors example_json_errors \<noteq> []
   \<and> snd (snd (execute example_tx (Response created_errors_response) (Response ok_response)))
       = Rejected (ErrorObj ''Error'' ''Invalid input'')
   \<and> sent (fst (execute example_tx (Response created_errors_response) (Response ok_response)))
       = [first_request example_tx]
   \<and> snd (snd (execute_sr example_tx_sr (Response created_errors_response) (Response ok_response)))
       = Rejected (ErrorObj ''Error'' ''Invalid input'')"
  using execute_statement_errors [where res = created_errors_response and j = example_json_errors
      and tx = example_tx and ts = example_tx_sr and rc = "Response ok_response"]
  by (simp add: created_errors_response_def example_json_errors_def new_Error_def)

lemma execute_commit_eq:
  "status res = 200 \<or> status res = 201 \<Longrightarrow> json res = Json j \<Longrightarrow> errors j = [] \<Longrightarrow>
   execute tx (Response res) (Response resc)
     = ([Send (first_request tx), SetUsed, Send (commit_request tx j)], tx\<lparr>used := True\<rparr>,
        if status resc = 200 then Resolved (results j)
        else Rejected (new_Error ''Error: commit failed''))"
  by (auto simp: execute_def on_response_def on_json_def on_catch_def
      on_commit_response_def HTTP_OK_def HTTP_CREATED_def commit_request_def new_Error_def)

lemma execute_sr_commit_eq:
  "status res = 200 \<or> status res = 201 \<Longrightarrow> json res = Json j \<Longrightarrow> errors j = [] \<Longrightarrow>
   execute_sr ts (Response res) (Response resc)
     = ([Send (first_request_sr ts), SetUsed, Send (commit_request_sr ts j)], ts\<lparr>used := True\<rparr>,
        if status resc = 200 then Resolved (results j)
        else Rejected (new_Error ''Error: Transaction commit failed''))"
  by (auto simp: execute_sr_def on_response_sr_def on_json_sr_def
      on_catch_def on_commit_response_sr_def ServerRequest_HTTP_OK_def
      ServerRequest_HTTP_CREATED_def commit_request_sr_def first_request_sr_def new_Error_def)

text \<open>
  Claim C4. When the first request is answered with status 200 or 201 and a body whose
  \<^verbatim>\<open>errors\<close> array is empty, \<^verbatim>\<open>execute\<close> keeps the \<^verbatim>\<open>results\<close> of the body and sends a
  second POST, to the \<^verbatim>\<open>commit\<close> URL of the body. If that request is answered with status
  200 the promise is resolved with the results kept; with any other status it is rejected
  with a commit-failed error, whose message is "Error: commit failed" in index.js and
  "Error: Transaction commit failed" in the version sending through ServerRequest.
\<close>

theorem execute_commits:
  "(status res = 200 \<or> status res = 201) \<and> json res = Json j \<and> errors j = [] \<longrightarrow>
     sent (fst (execute tx (Response res) (Response resc))) = [first_request tx, commit_request tx j]
     \<and> endpoint (commit_request tx j) = Url (commit j)
     \<and> method (commit_request tx j) = ''post''
     \<and> snd (snd (execute tx (Response res) (Response resc)))
         = (if status resc = 200 then Resolved (results j)
            else Rejected (new_Error ''Error: commit failed''))
     \<and> sent (fst (execute_sr ts (Response res) (Response resc)))
         = [first_request_sr ts, commit_request_sr ts j]
     \<and> endpoint (commit_request_sr ts j) = HostPortPath (host ts) (port ts) (commit j)
     \<and> method (commit_request_sr ts j) = ''post''
     \<and> body (commit_request_sr ts j) = Text []
     \<and> snd (snd (execute_sr ts (Response res) (Response resc)))
         = (if status resc = 200 then Resolved (results j)
            else Rejected (new_Error ''Error: Transaction commit failed''))"
  by (simp add: execute_commit_eq execute_sr_commit_eq commit_request_def commit_request_sr_def
      first_request_sr_def)

theorem execute_commits_witness:
  "(status created_response = 200 \<or> status created_response = 201)
   \<and> json created_response = Json example_json \<and> errors example_json = []
   \<and> sent (fst (execute example_tx (Response created_response) (Response ok_response)))
       = [first_request example_tx, commit_request example_tx example_json]
   \<and> snd (snd (execute example_tx (Response created_response) (Response ok_response)))
       = Resolved (JArr [JObj [(''columns'', JArr [JStr ''u'']), (''data'', JArr [])]])
   \<and> snd (snd (execute example_tx (Response created_response) (Response not_found_response)))
       = Rejected (ErrorObj ''Error'' ''Error: commit failed'')
   \<and> snd (snd (execute_sr example_tx_sr (Response created_response) (Response ok_response)))
       = Resolved (JArr [JObj [(''columns'', JArr [JStr ''u'']), (''data'', JArr [])]])
   \<and> snd (snd (execute_sr example_tx_sr (Response created_response) (Response not_found_response)))
       = Rejected (ErrorObj ''Error'' ''Error: Transaction commit failed'')"
  using execute_commits [where res = created_response and j = example_json and tx = example_tx
      and ts = example_tx_sr and resc = ok_response]
    execute_commits [where res = created_response and j = example_json and tx = example_tx
      and ts = example_tx_sr and resc = not_found_response]
  by (simp add: created_response_def example_json_def ok_response_def not_found_response_def
      new_Error_def)



lemma addQueries_unused:
  "\<not> used tx \<Longrightarrow>
   addQueries tx calls
     = Inr (tx\<lparr>statements := statements tx
                 @ map (\<lambda>(qb, params). JObj [(''statement'', JStr (toString qb)),
                                               (''parameters'', params)]) calls\<rparr>)"
proof (induction calls arbitrary: tx)
  case Nil
  show ?case by simp
next
  case (Cons c calls)
  obtain qb params where c: "c = (qb, params)" by (cases c)
  let ?tx = "tx\<lparr>statements := statements tx
                 @ [JObj [(''statement'', JStr (toString qb)), (''parameters'', params)]]\<rparr>"
  have "\<not> used ?tx" using Cons.prems by simp
  then have "addQueries ?tx calls = Inr (?tx\<lparr>statements := statements ?tx
                 @ map (\<lambda>(qb, params). JObj [(''statement'', JStr (toString qb)),
                                               (''parameters'', params)]) calls\<rparr>)"
    by (rule Cons.IH)
  with Cons.prems show ?case by (simp add: c addQuery_def)
qed

lemma first_sent_execute: "hd (sent (fst (execute tx rf rc))) = first_request tx"
  by (simp add: execute_def split: reply.splits prod.splits sum.splits)

lemma first_sent_execute_sr: "hd (sent (fst (execute_sr ts rf rc))) = first_request_sr ts"
  by (simp add: execute_sr_def split: reply.splits prod.splits sum.splits)

text \<open>
  Claim C6. After a sequence of \<^verbatim>\<open>addQuery\<close> calls on a new transaction, the body of the
  request that \<^verbatim>\<open>execute\<close> sends first is the JSON text of the object whose field
  \<^verbatim>\<open>statements\<close> is the array of the entries of the calls in the order of the calls, each
  entry holding the text that \<^verbatim>\<open>toString\<close> gives for the query builder of the call and
  the parameters of the call. That holds for every sequence, the empty one included.
\<close>

theorem request_body_keeps_append_order:
  "(\<exists>tx'. addQueries (Transaction url a) calls = Inr tx'
      \<and> hd (sent (fst (execute tx' rf rc))) = first_request tx'
      \<and> body (first_request tx')
          = JSON_stringify (JObj [(''statements'',
              JArr (map (\<lambda>(qb, params). JObj [(''statement'', JStr (toString qb)),
                                               (''parameters'', params)]) calls))]))
   \<and> (\<exists>ts'. addQueries (Transaction_sr h p a) calls = Inr ts'
      \<and> hd (sent (fst (execute_sr ts' rf rc))) = first_request_sr ts'
      \<and> body (first_request_sr ts')
          = JSON_stringify (JObj [(''statements'',
              JArr (map (\<lambda>(qb, params). JObj [(''statement'', JStr (toString qb)),
                                               (''parameters'', params)]) calls))]))"
proof -
  let ?entries = "map (\<lambda>(qb, params). JObj [(''statement'', JStr (toString qb)),
                                               (''parameters'', params)]) calls"
  have "\<not> used (Transaction url a)" by (simp add: Transaction_def)
  then have 3: "addQueries (Transaction url a) calls
      = Inr ((Transaction url a)\<lparr>statements := statements (Transaction url a) @ ?entries\<rparr>)"
    by (rule addQueries_unused)
  have "\<not> used (Transaction_sr h p a)" by (simp add: Transaction_sr_def)
  then have 4: "addQueries (Transaction_sr h p a) calls
      = Inr ((Transaction_sr h p a)\<lparr>statements := statements (Transaction_sr h p a) @ ?entries\<rparr>)"
    by (rule addQueries_unused)
  show ?thesis
    by (simp add: 3 4 first_sent_execute first_sent_execute_sr first_request_def
        first_request_sr_def)
      (simp add: Transaction_def Transaction_sr_def)
qed

theorem request_body_keeps_append_order_witness:
  "\<exists>tx'. addQueries example_tx example_calls = Inr tx'
      \<and> hd (sent (fst (execute tx' (Response created_response) (Response ok_response))))
          = first_request tx'
      \<and> body (first_request tx')
          = JSON_stringify (JObj [(''statements'',
              JArr [JObj [(''statement'', JStr ''CREATE (u:User {uid: {params}.uid})''),
                          (''parameters'', JObj [(''params'', JObj [(''uid'', JStr ''111'')])])],
                    JObj [(''statement'', JStr ''MATCH (u) RETURN u''),
                          (''parameters'', JNull)]])])"
  using request_body_keeps_append_order [where url = "''http://127.0.0.1:7474/db/data/transaction''"
      and a = "''bmVvNGo6cGFzc3dvcmQ=''" and calls = example_calls
      and rf = "Response created_response" and rc = "Response ok_response"]
  by (simp add: example_tx_def example_calls_def toString_def trim_def is_space_def)

end
